theory Spec2Isabelle
  imports Main
begin

section \<open>Strings and numbers of the host language\<close>

text \<open>
  A string is a list of 8-bit characters. Header text is read as one character per
  byte; text that goes into a URL is read as its UTF-8 bytes, which is what
  \<^verbatim>\<open>encodeURIComponent\<close> and the query serializer escape.
\<close>

text \<open>\<^verbatim>\<open>String.prototype.split\<close> with a one-character separator: the pieces between
  the separators, never an empty array.\<close>

fun split :: "char \<Rightarrow> string \<Rightarrow> string list" where
  "split sep [] = [[]]"
| "split sep (c # cs) =
     (if c = sep then [] # split sep cs
      else (case split sep cs of
              [] \<Rightarrow> [[c]]
            | p # ps \<Rightarrow> (c # p) # ps))"

text \<open>\<^verbatim>\<open>Array.prototype.join\<close> on strings.\<close>

fun join :: "string \<Rightarrow> string list \<Rightarrow> string" where
  "join sep [] = []"
| "join sep [x] = x"
| "join sep (x # y # ys) = x @ sep @ join sep (y # ys)"

text \<open>White space as \<^verbatim>\<open>trim\<close> and \<^verbatim>\<open>parseInt\<close> see it, among the code units
  below 256: tab, line feed, vertical tab, form feed, carriage return, space and the
  no-break space.\<close>

definition is_space :: "char \<Rightarrow> bool" where
  "is_space c \<longleftrightarrow> c \<in> set [CHR 0x09, CHR 0x0A, CHR 0x0B, CHR 0x0C, CHR 0x0D, CHR 0x20, CHR 0xA0]"

definition trim :: "string \<Rightarrow> string" where
  "trim s = rev (dropWhile is_space (rev (dropWhile is_space s)))"

text \<open>\<^verbatim>\<open>Number.prototype.toString\<close> on an integer-valued number: its decimal digits,
  with a minus sign below zero. Numbers are modelled by integers; the model is exact for
  the safe integers of the host language, which are printed in full.\<close>

fun dec :: "nat \<Rightarrow> string" where
  "dec n = (if n < 10 then [''0123456789'' ! n]
            else dec (n div 10) @ [''0123456789'' ! (n mod 10)])"

declare dec.simps [simp del]

definition Number_toString :: "int \<Rightarrow> string" where
  "Number_toString n = (if n < 0 then CHR ''-'' # dec (nat (- n)) else dec (nat n))"

text \<open>The result of \<^verbatim>\<open>parseInt\<close> is an integer or \<^verbatim>\<open>NaN\<close>; \<open>None\<close> is \<^verbatim>\<open>NaN\<close>.\<close>

type_synonym number = "int option"

definition digit_value :: "char \<Rightarrow> nat option" where
  "digit_value c =
     (let n = (of_char c :: nat) in
      if 48 \<le> n \<and> n \<le> 57 then Some (n - 48)
      else if 97 \<le> n \<and> n \<le> 102 then Some (n - 87)
      else if 65 \<le> n \<and> n \<le> 70 then Some (n - 55)
      else None)"

definition is_digit :: "nat \<Rightarrow> char \<Rightarrow> bool" where
  "is_digit radix c \<longleftrightarrow> (case digit_value c of None \<Rightarrow> False | Some d \<Rightarrow> d < radix)"

definition digits_value :: "nat \<Rightarrow> string \<Rightarrow> nat" where
  "digits_value radix ds = foldl (\<lambda>acc c. acc * radix + (case digit_value c of None \<Rightarrow> 0 | Some d \<Rightarrow> d)) 0 ds"

text \<open>\<^verbatim>\<open>parseInt(s)\<close> with no radix: leading white space is skipped, a sign is read, a
  \<^verbatim>\<open>0x\<close> prefix selects base 16, the longest prefix of digits is the value, and no digit
  at all gives \<^verbatim>\<open>NaN\<close>.\<close>

definition parseInt :: "string \<Rightarrow> number" where
  "parseInt s =
     (let s1 = dropWhile is_space s;
          negative = (take 1 s1 = ''-'');
          s2 = (if take 1 s1 = ''-'' \<or> take 1 s1 = ''+'' then drop 1 s1 else s1);
          hex = (take 2 s2 = ''0x'' \<or> take 2 s2 = ''0X'');
          radix = (if hex then 16 else 10);
          s3 = (if hex then drop 2 s2 else s2);
          ds = takeWhile (is_digit radix) s3
      in if ds = [] then None
         else Some (if negative then - int (digits_value radix ds) else int (digits_value radix ds)))"

definition number_toString :: "number \<Rightarrow> string" where
  "number_toString n = (case n of None \<Rightarrow> ''NaN'' | Some i \<Rightarrow> Number_toString i)"

definition number_add :: "number \<Rightarrow> number \<Rightarrow> number" where
  "number_add a b = (case a of None \<Rightarrow> None | Some x \<Rightarrow> (case b of None \<Rightarrow> None | Some y \<Rightarrow> Some (x + y)))"

definition number_positive :: "number \<Rightarrow> bool" where
  "number_positive n = (case n of None \<Rightarrow> False | Some x \<Rightarrow> 0 < x)"

section \<open>The cookie jar\<close>

text \<open>
  \<^verbatim>\<open>const cookieJar = new Map()\<close>: a map from cookie name to value that keeps insertion
  order. \<^verbatim>\<open>Map.prototype.set\<close> replaces the value of a key that is present, in place, and
  appends a new key at the end.
\<close>

type_synonym cookieJar = "(string \<times> string) list"

fun Map_set :: "'k \<Rightarrow> 'v \<Rightarrow> ('k \<times> 'v) list \<Rightarrow> ('k \<times> 'v) list" where
  "Map_set k v [] = [(k, v)]"
| "Map_set k v ((k', v') # m) = (if k' = k then (k, v) # m else (k', v') # Map_set k v m)"

text \<open>The body of the loop of \<^verbatim>\<open>parseCookies\<close>, for one \<^verbatim>\<open>Set-Cookie\<close> entry:
  \<^verbatim>\<open>const [mainPart] = cookieString.split(';'); const [name, value] = mainPart.split('=');
  if (name && value) cookieJar.set(name.trim(), value.trim())\<close>.
  A missing second piece is \<^verbatim>\<open>undefined\<close>, an empty piece is falsy.\<close>

definition record_cookie :: "cookieJar \<Rightarrow> string \<Rightarrow> cookieJar" where
  "record_cookie jar cookieString =
     (case split CHR '';'' cookieString of
        [] \<Rightarrow> jar
      | mainPart # _ \<Rightarrow>
          (case split CHR ''='' mainPart of
             name # value # _ \<Rightarrow>
               if name \<noteq> [] \<and> value \<noteq> [] then Map_set (trim name) (trim value) jar else jar
           | _ \<Rightarrow> jar))"

text \<open>\<^verbatim>\<open>parseCookies(response)\<close>, on the \<^verbatim>\<open>set-cookie\<close> entries of the response.\<close>

definition parseCookies :: "cookieJar \<Rightarrow> string list \<Rightarrow> cookieJar" where
  "parseCookies jar cookieHeader = foldl record_cookie jar cookieHeader"

definition getCookieString :: "cookieJar \<Rightarrow> string" where
  "getCookieString jar = join ''; '' (map (\<lambda>(name, value). name @ ''='' @ value) jar)"

section \<open>Values, errors and the environment\<close>

text \<open>
  The values the handlers walk through: what \<^verbatim>\<open>JSON.parse\<close> returns, and \<^verbatim>\<open>undefined\<close>
  for a property that is not there. An object is the list of its own properties in
  insertion order, with distinct keys; numbers are integer-valued.
\<close>

datatype jsval =
    Undefined
  | Null
  | Bool bool
  | Num int
  | Str string
  | Arr "jsval list"
  | Obj "(string \<times> jsval) list"

text \<open>The exceptions that can be thrown: a plain \<^verbatim>\<open>Error\<close> with its message (the only kind
  this program throws itself), the \<^verbatim>\<open>FetchError\<close> of the HTTP library (a transport
  failure), and the \<^verbatim>\<open>TypeError\<close> and \<^verbatim>\<open>SyntaxError\<close> of the language.\<close>

datatype error =
    Error string
  | FetchError string
  | TypeError string
  | SyntaxError string

fun message :: "error \<Rightarrow> string" where
  "message (Error m) = m"
| "message (FetchError m) = m"
| "message (TypeError m) = m"
| "message (SyntaxError m) = m"

text \<open>Sequencing of steps that may throw: the first exception ends the block.\<close>

definition bind :: "error + 'a \<Rightarrow> ('a \<Rightarrow> error + 'b) \<Rightarrow> error + 'b" where
  "bind m f = (case m of Inl e \<Rightarrow> Inl e | Inr x \<Rightarrow> f x)"

fun mapM :: "('a \<Rightarrow> error + 'b) \<Rightarrow> 'a list \<Rightarrow> error + 'b list" where
  "mapM f [] = Inr []"
| "mapM f (x # xs) = bind (f x) (\<lambda>y. bind (mapM f xs) (\<lambda>ys. Inr (y # ys)))"

fun filterM :: "('a \<Rightarrow> error + bool) \<Rightarrow> 'a list \<Rightarrow> error + 'a list" where
  "filterM f [] = Inr []"
| "filterM f (x # xs) =
     bind (f x) (\<lambda>keep. bind (filterM f xs) (\<lambda>ys. Inr (if keep then x # ys else ys)))"

text \<open>What the program reads of a response: the status, the \<^verbatim>\<open>set-cookie\<close> entries
  (\<^verbatim>\<open>headers.raw()['set-cookie']\<close>, empty when there is none), the \<^verbatim>\<open>location\<close> header
  (\<^verbatim>\<open>headers.get("location")\<close>, \<open>None\<close> for \<^verbatim>\<open>null\<close>) and the body as \<^verbatim>\<open>text()\<close> gives
  it, or the error reading it throws.\<close>

record response =
  status :: int
  set_cookie :: "string list"
  location_header :: "string option"
  text_body :: "error + string"

text \<open>What a request carries beyond the fixed table of browser headers and the
  \<^verbatim>\<open>Host\<close>, \<^verbatim>\<open>Referer\<close> and \<^verbatim>\<open>Origin\<close> derived from its URL: the \<^verbatim>\<open>Cookie\<close> header, left out
  when the jar serializes to the empty string, and the headers of the caller's
  \<^verbatim>\<open>options\<close>, which override the others.\<close>

record request =
  req_url :: string
  req_cookie :: "string option"
  req_headers :: "(string \<times> string) list"

text \<open>A schema of \<^verbatim>\<open>pickBySchema\<close>: \<^verbatim>\<open>true\<close>, or a nested schema by key.\<close>

datatype schema = Keep | Nested "(string \<times> schema) list"

text \<open>
  Everything outside \<^verbatim>\<open>index.ts\<close> that the program calls:
  \<^item> \<open>net\<close>: the answer of the network to the \<open>n\<close>-th request of the process, a response
    or the exception \<^verbatim>\<open>fetch\<close> rejects with;
  \<^item> \<open>resolve\<close>: \<^verbatim>\<open>new URL(location, url).toString()\<close>, or the \<^verbatim>\<open>TypeError\<close> of an invalid URL;
  \<^item> \<open>robots_isAllowed\<close>: \<^verbatim>\<open>robotsParser(path, content).isAllowed(path, userAgent)\<close>, which
    is \<^verbatim>\<open>true\<close>, \<^verbatim>\<open>false\<close> or \<^verbatim>\<open>undefined\<close> (\<open>None\<close>);
  \<^item> \<open>deferred_state\<close>: the text of the first element that \<^verbatim>\<open>#data-deferred-state-0\<close> selects
    in a page, \<open>None\<close> when it selects nothing;
  \<^item> \<open>json_parse\<close>: \<^verbatim>\<open>JSON.parse\<close> on a non-empty text, \<open>None\<close> when it throws;
  \<^item> \<open>SESSION_USER_AGENT\<close>: the user agent drawn once at startup;
  \<^item> \<open>cleanObject\<close>, \<open>pickBySchema\<close>, \<open>flattenArraysInObject\<close>: the helpers imported from
    \<^verbatim>\<open>./util.js\<close>.
\<close>

text \<open>Modelled from the spec: the code of \<^verbatim>\<open>util.js\<close> is missing, and its three helpers are
  fields of the environment, so that every statement below holds for whatever they
  compute. They are total functions on values, since the spec has them never throw.
  \<open>cleanObject\<close> works in place: the field gives the state of its argument after the walk.
  The schema handed to \<open>pickBySchema\<close> is \<open>None\<close> when the program hands it \<^verbatim>\<open>undefined\<close>.\<close>

record env =
  net :: "nat \<Rightarrow> error + response"
  resolve :: "string \<Rightarrow> string \<Rightarrow> error + string"
  robots_isAllowed :: "string \<Rightarrow> string \<Rightarrow> string \<Rightarrow> bool option"
  deferred_state :: "string \<Rightarrow> string option"
  json_parse :: "string \<Rightarrow> jsval option"
  SESSION_USER_AGENT :: string
  cleanObject :: "jsval \<Rightarrow> jsval"
  pickBySchema :: "jsval \<Rightarrow> schema option \<Rightarrow> jsval"
  flattenArraysInObject :: "jsval \<Rightarrow> jsval"

text \<open>The mutable state of the process: the cookie jar, the text of \<^verbatim>\<open>robots.txt\<close> kept at
  startup (empty when it was not fetched), and the requests sent so far, oldest first.\<close>

record world =
  cookieJar :: cookieJar
  robotsTxtContent :: string
  sent :: "request list"

section \<open>The HTTP client\<close>

definition MAX_REDIRECTS :: nat where
  "MAX_REDIRECTS = 5"

definition too_many_redirects :: "string \<Rightarrow> error" where
  "too_many_redirects url = Error (''Too many redirects while fetching '' @ url)"

definition missing_location :: "int \<Rightarrow> error" where
  "missing_location st = Error (''Redirect status '' @ Number_toString st @ '' but no Location header'')"

text \<open>
  \<^verbatim>\<open>fetchWithBrowserHeaders(url, options, redirectCount)\<close>. The request is sent with the
  cookies of the jar; a rejected \<^verbatim>\<open>fetch\<close> propagates; the cookies of the response are
  stored; a status 307, 302 or 301 is followed by hand, after the check of the count and
  of the \<^verbatim>\<open>location\<close> header (\<^verbatim>\<open>null\<close> and the empty string are both falsy). The pause before
  the request is not modelled.
\<close>

function fetchWithBrowserHeaders ::
  "env \<Rightarrow> string \<Rightarrow> (string \<times> string) list \<Rightarrow> nat \<Rightarrow> world \<Rightarrow> (error + response) \<times> world" where
  "fetchWithBrowserHeaders E url options redirectCount w =
     (let cookieString = getCookieString (cookieJar w);
          req = \<lparr>req_url = url,
                 req_cookie = (if cookieString \<noteq> [] then Some cookieString else None),
                 req_headers = options\<rparr>;
          w1 = w\<lparr>sent := sent w @ [req]\<rparr>
      in case net E (length (sent w)) of
           Inl e \<Rightarrow> (Inl e, w1)
         | Inr response \<Rightarrow>
             let w2 = w1\<lparr>cookieJar := parseCookies (cookieJar w1) (set_cookie response)\<rparr> in
             if status response = 307 \<or> status response = 302 \<or> status response = 301 then
               if redirectCount \<ge> MAX_REDIRECTS then (Inl (too_many_redirects url), w2)
               else (case location_header response of
                       None \<Rightarrow> (Inl (missing_location (status response)), w2)
                     | Some location \<Rightarrow>
                         if location = [] then (Inl (missing_location (status response)), w2)
                         else (case resolve E location url of
                                 Inl e \<Rightarrow> (Inl e, w2)
                               | Inr redirectedUrl \<Rightarrow>
                                   fetchWithBrowserHeaders E redirectedUrl options (redirectCount + 1) w2))
             else (Inr response, w2))"
  by pat_completeness auto
termination
  by (relation "measure (\<lambda>(E, url, options, redirectCount, w). MAX_REDIRECTS - redirectCount)")
     (auto simp: MAX_REDIRECTS_def)

declare fetchWithBrowserHeaders.simps [simp del]

section \<open>Reading values\<close>

text \<open>\<^verbatim>\<open>v.name\<close> for a name that is neither an index nor a built-in property (all the names
  the handlers read are such): an exception on \<^verbatim>\<open>undefined\<close> and \<^verbatim>\<open>null\<close>, the own property
  of an object, \<^verbatim>\<open>undefined\<close> otherwise.\<close>

fun get_prop :: "jsval \<Rightarrow> string \<Rightarrow> error + jsval" where
  "get_prop Undefined k = Inl (TypeError (''Cannot read properties of undefined (reading '' @ k @ '')''))"
| "get_prop Null k = Inl (TypeError (''Cannot read properties of null (reading '' @ k @ '')''))"
| "get_prop (Obj ps) k = Inr (case map_of ps k of None \<Rightarrow> Undefined | Some v \<Rightarrow> v)"
| "get_prop v k = Inr Undefined"

text \<open>\<^verbatim>\<open>v[i]\<close> for an index \<open>i\<close>.\<close>

fun get_index :: "jsval \<Rightarrow> nat \<Rightarrow> error + jsval" where
  "get_index Undefined i = Inl (TypeError (''Cannot read properties of undefined (reading '' @ dec i @ '')''))"
| "get_index Null i = Inl (TypeError (''Cannot read properties of null (reading '' @ dec i @ '')''))"
| "get_index (Arr xs) i = Inr (if i < length xs then xs ! i else Undefined)"
| "get_index (Str s) i = Inr (if i < length s then Str [s ! i] else Undefined)"
| "get_index (Obj ps) i = Inr (case map_of ps (dec i) of None \<Rightarrow> Undefined | Some v \<Rightarrow> v)"
| "get_index v i = Inr Undefined"

text \<open>A method of \<^verbatim>\<open>Array.prototype\<close> (\<^verbatim>\<open>map\<close>, \<^verbatim>\<open>filter\<close>, \<^verbatim>\<open>forEach\<close>) called on a value:
  only an array has it.\<close>

fun as_array :: "jsval \<Rightarrow> error + jsval list" where
  "as_array (Arr xs) = Inr xs"
| "as_array Undefined = Inl (TypeError ''Cannot read properties of undefined'')"
| "as_array Null = Inl (TypeError ''Cannot read properties of null'')"
| "as_array v = Inl (TypeError ''is not a function'')"

text \<open>The conversion to a string that a template literal and a property key apply.\<close>

fun ToString :: "jsval \<Rightarrow> string" where
  "ToString Undefined = ''undefined''"
| "ToString Null = ''null''"
| "ToString (Bool b) = (if b then ''true'' else ''false'')"
| "ToString (Num n) = Number_toString n"
| "ToString (Str s) = s"
| "ToString (Arr xs) =
     join '','' (map (\<lambda>x. if x = Undefined \<or> x = Null then [] else ToString x) xs)"
| "ToString (Obj ps) = ''[object Object]''"

text \<open>The properties that a spread \<^verbatim>\<open>...v\<close> copies into an object literal, and the literal
  \<^verbatim>\<open>{k: x, ...v}\<close> itself: a copied key that is already there keeps its place and takes the
  new value.\<close>

fun own_props :: "jsval \<Rightarrow> (string \<times> jsval) list" where
  "own_props (Obj ps) = ps"
| "own_props (Arr xs) = zip (map dec [0..<length xs]) xs"
| "own_props (Str s) = zip (map dec [0..<length s]) (map (\<lambda>c. Str [c]) s)"
| "own_props v = []"

definition spread :: "(string \<times> jsval) list \<Rightarrow> jsval \<Rightarrow> (string \<times> jsval) list" where
  "spread ps v = foldl (\<lambda>acc (k, x). Map_set k x acc) ps (own_props v)"

section \<open>URLs\<close>

definition BASE_URL :: string where
  "BASE_URL = ''https://www.airbnb.ca''"

definition is_alnum :: "char \<Rightarrow> bool" where
  "is_alnum c =
     (let n = (of_char c :: nat) in
      (48 \<le> n \<and> n \<le> 57) \<or> (65 \<le> n \<and> n \<le> 90) \<or> (97 \<le> n \<and> n \<le> 122))"

text \<open>The characters \<^verbatim>\<open>encodeURIComponent\<close> leaves as they are: letters, digits and
  \<^verbatim>\<open>- _ . ! ~ * ' ( )\<close>.\<close>

definition unreserved :: "char \<Rightarrow> bool" where
  "unreserved c \<longleftrightarrow> is_alnum c \<or> c \<in> set (''-_.!~*()'' @ [CHR 0x27])"

definition percent_encode :: "char \<Rightarrow> string" where
  "percent_encode c =
     (let n = (of_char c :: nat)
      in [CHR ''%'', ''0123456789ABCDEF'' ! (n div 16), ''0123456789ABCDEF'' ! (n mod 16)])"

definition encodeURIComponent :: "string \<Rightarrow> string" where
  "encodeURIComponent s = concat (map (\<lambda>c. if unreserved c then [c] else percent_encode c) s)"

text \<open>The serializer of \<^verbatim>\<open>URLSearchParams\<close> for a name or a value: letters, digits and
  \<^verbatim>\<open>* - . _\<close> stay, a space becomes \<^verbatim>\<open>+\<close>, every other byte is escaped.\<close>

definition form_encode :: "string \<Rightarrow> string" where
  "form_encode s =
     concat (map (\<lambda>c. if c = CHR '' '' then ''+''
                       else if is_alnum c \<or> c \<in> set ''*-._'' then [c]
                       else percent_encode c) s)"

text \<open>
  A URL of the fixed origin \<^verbatim>\<open>https://www.airbnb.ca\<close>: its path and the list of its query
  parameters. \<open>url_path\<close> is the path state of the URL parser on segments that need no
  escaping: a segment \<^verbatim>\<open>..\<close> removes the last segment of the path so far, a segment \<^verbatim>\<open>.\<close> is
  skipped, and either, in last position, leaves an empty segment. The model of \<^verbatim>\<open>new URL\<close>
  is exact for segments made of unreserved characters and of the escapes of
  \<^verbatim>\<open>encodeURIComponent\<close>.
\<close>

record URL =
  pathname :: string
  searchParams :: "(string \<times> string) list"

fun url_path :: "string list \<Rightarrow> string list \<Rightarrow> string list" where
  "url_path path [] = path"
| "url_path path (seg # rest) =
     (if seg = ''..'' then url_path (if rest = [] then butlast path @ [[]] else butlast path) rest
      else if seg = ''.'' then url_path (if rest = [] then path @ [[]] else path) rest
      else url_path (path @ [seg]) rest)"

definition new_URL :: "string list \<Rightarrow> URL" where
  "new_URL segments =
     \<lparr>pathname = concat (map (\<lambda>seg. CHR ''/'' # seg) (url_path [] segments)), searchParams = []\<rparr>"

definition append :: "string \<Rightarrow> string \<Rightarrow> URL \<Rightarrow> URL" where
  "append name v u = u\<lparr>searchParams := searchParams u @ [(name, v)]\<rparr>"

definition URL_search :: "URL \<Rightarrow> string" where
  "URL_search u =
     (if searchParams u = [] then []
      else CHR ''?'' # join ''&'' (map (\<lambda>(name, v). form_encode name @ ''='' @ form_encode v) (searchParams u)))"

definition URL_toString :: "URL \<Rightarrow> string" where
  "URL_toString u = BASE_URL @ pathname u @ URL_search u"

text \<open>\<^verbatim>\<open>if (x) url.searchParams.append(name, x)\<close> for a string that may be missing, and
  \<^verbatim>\<open>if (x) url.searchParams.append(name, x.toString())\<close> for a number that may be missing:
  \<^verbatim>\<open>undefined\<close>, the empty string and zero are falsy.\<close>

definition append_string :: "string \<Rightarrow> string option \<Rightarrow> URL \<Rightarrow> URL" where
  "append_string name x u =
     (case x of None \<Rightarrow> u | Some v \<Rightarrow> if v \<noteq> [] then append name v u else u)"

definition append_number :: "string \<Rightarrow> int option \<Rightarrow> URL \<Rightarrow> URL" where
  "append_number name x u =
     (case x of None \<Rightarrow> u | Some n \<Rightarrow> if n \<noteq> 0 then append name (Number_toString n) u else u)"

section \<open>The parameters of the two operations\<close>

text \<open>A parameter that the caller left out is \<open>None\<close>. The guest counts and the prices
  are numbers, as the input schema of the tools declares them.\<close>

record stay_params =
  checkin :: "string option"
  checkout :: "string option"
  adults :: "int option"
  children :: "int option"
  infants :: "int option"
  pets :: "int option"
  ignoreRobotsText :: "bool option"

record search_params = stay_params +
  location :: "string option"
  placeId :: "string option"
  minPrice :: "int option"
  maxPrice :: "int option"
  cursor :: "string option"

record listing_params = stay_params +
  listing_id :: string

text \<open>\<^verbatim>\<open>parseInt(x.toString())\<close> on a guest count, after the default of the destructuring.\<close>

definition coerce :: "int option \<Rightarrow> int \<Rightarrow> number" where
  "coerce x dflt = parseInt (Number_toString (case x of None \<Rightarrow> dflt | Some n \<Rightarrow> n))"

definition adults_int :: "'a stay_params_scheme \<Rightarrow> number" where
  "adults_int p = coerce (adults p) 1"

definition children_int :: "'a stay_params_scheme \<Rightarrow> number" where
  "children_int p = coerce (children p) 0"

definition infants_int :: "'a stay_params_scheme \<Rightarrow> number" where
  "infants_int p = coerce (infants p) 0"

definition pets_int :: "'a stay_params_scheme \<Rightarrow> number" where
  "pets_int p = coerce (pets p) 0"

definition totalGuests :: "'a stay_params_scheme \<Rightarrow> number" where
  "totalGuests p = number_add (adults_int p) (children_int p)"

text \<open>The URL that \<^verbatim>\<open>handleAirbnbSearch\<close> builds.\<close>

definition searchUrl :: "search_params \<Rightarrow> URL" where
  "searchUrl p =
     (let u0 = new_URL [''s'',
                        encodeURIComponent (case location p of None \<Rightarrow> ''undefined'' | Some l \<Rightarrow> l),
                        ''homes''];
          u1 = append_string ''place_id'' (placeId p) u0;
          u2 = append_string ''checkin'' (checkin p) u1;
          u3 = append_string ''checkout'' (checkout p) u2;
          u4 = (if number_positive (totalGuests p) then
                  append ''pets'' (number_toString (pets_int p))
                    (append ''infants'' (number_toString (infants_int p))
                      (append ''children'' (number_toString (children_int p))
                        (append ''adults'' (number_toString (adults_int p)) u3)))
                else u3);
          u5 = append_number ''price_min'' (minPrice p) u4;
          u6 = append_number ''price_max'' (maxPrice p) u5
      in append_string ''cursor'' (cursor p) u6)"

text \<open>The URL that \<^verbatim>\<open>handleAirbnbListingDetails\<close> builds. The id goes into the path as it
  is; the model is exact for an id made of unreserved characters.\<close>

definition listingUrl :: "listing_params \<Rightarrow> URL" where
  "listingUrl p =
     (let u0 = new_URL [''rooms'', listing_id p];
          u1 = append_string ''check_in'' (checkin p) u0;
          u2 = append_string ''check_out'' (checkout p) u1
      in if number_positive (totalGuests p) then
           append ''pets'' (number_toString (pets_int p))
             (append ''infants'' (number_toString (infants_int p))
               (append ''children'' (number_toString (children_int p))
                 (append ''adults'' (number_toString (adults_int p))
                   (append ''infants'' (number_toString (infants_int p))
                     (append ''children'' (number_toString (children_int p))
                       (append ''adults'' (number_toString (adults_int p)) u2))))))
         else u2)"

section \<open>The two handlers\<close>

text \<open>The result of a tool call, \<^verbatim>\<open>{content: [{type: "text", text: JSON.stringify(o, null, 2)}],
  isError}\<close>: the object \<open>o\<close> that is serialized, and the flag.\<close>

record tool_result =
  text_json :: jsval
  isError :: bool

definition robotsErrorMessage :: string where
  "robotsErrorMessage = ''This path is disallowed by Airbnb's robots.txt to this User-agent. You may or may not want to run the server with '--ignore-robots-txt' args''"

definition isPathAllowed :: "env \<Rightarrow> world \<Rightarrow> string \<Rightarrow> bool" where
  "isPathAllowed E w path =
     (if robotsTxtContent w = [] then True
      else (case robots_isAllowed E (robotsTxtContent w) path (SESSION_USER_AGENT E) of
              Some True \<Rightarrow> True
            | _ \<Rightarrow> False))"

definition allowSearchResultSchema :: schema where
  "allowSearchResultSchema = Nested
     [(''listing'', Nested
         [(''id'', Keep), (''name'', Keep), (''title'', Keep), (''coordinate'', Keep),
          (''structuredContent'', Nested
             [(''mapCategoryInfo'', Nested [(''body'', Keep)]),
              (''mapSecondaryLine'', Nested [(''body'', Keep)]),
              (''primaryLine'', Nested [(''body'', Keep)]),
              (''secondaryLine'', Nested [(''body'', Keep)])])]),
      (''avgRatingA11yLabel'', Keep),
      (''listingParamOverrides'', Keep),
      (''structuredDisplayPrice'', Nested
         [(''primaryLine'', Nested [(''accessibilityLabel'', Keep)]),
          (''secondaryLine'', Nested [(''accessibilityLabel'', Keep)]),
          (''explanationData'', Nested
             [(''title'', Keep),
              (''priceDetails'', Nested
                 [(''items'', Nested [(''description'', Keep), (''priceString'', Keep)])])])])]"

definition allowSectionSchema :: "(string \<times> schema) list" where
  "allowSectionSchema =
     [(''LOCATION_DEFAULT'', Nested
         [(''lat'', Keep), (''lng'', Keep), (''subtitle'', Keep), (''title'', Keep)]),
      (''POLICIES_DEFAULT'', Nested
         [(''title'', Keep),
          (''houseRulesSections'', Nested
             [(''title'', Keep), (''items'', Nested [(''title'', Keep)])])]),
      (''HIGHLIGHTS_DEFAULT'', Nested [(''highlights'', Nested [(''title'', Keep)])]),
      (''DESCRIPTION_DEFAULT'', Nested [(''htmlDescription'', Nested [(''htmlText'', Keep)])]),
      (''AMENITIES_DEFAULT'', Nested
         [(''title'', Keep),
          (''seeAllAmenitiesGroups'', Nested
             [(''title'', Keep), (''amenities'', Nested [(''title'', Keep)])])])]"

text \<open>\<^verbatim>\<open>allowSectionSchema.hasOwnProperty(v)\<close>: the value is converted to a property key.\<close>

definition hasOwnProperty :: "(string \<times> 'a) list \<Rightarrow> jsval \<Rightarrow> bool" where
  "hasOwnProperty table v \<longleftrightarrow> ToString v \<in> set (map fst table)"

text \<open>\<^verbatim>\<open>JSON.parse\<close>: the empty text, which is what an empty selection gives, is not JSON.\<close>

definition JSON_parse :: "env \<Rightarrow> string \<Rightarrow> error + jsval" where
  "JSON_parse E s =
     (if s = [] then Inl (SyntaxError ''Unexpected end of JSON input'')
      else (case json_parse E s of
              None \<Rightarrow> Inl (SyntaxError ''Unexpected token'')
            | Some v \<Rightarrow> Inr v))"

text \<open>\<^verbatim>\<open>JSON.parse($(scriptElement).text()).niobeMinimalClientData[0][1]\<close>, the first two lines
  of the inner \<^verbatim>\<open>try\<close> of both handlers.\<close>

definition clientData :: "env \<Rightarrow> string \<Rightarrow> error + jsval" where
  "clientData E html =
     bind (JSON_parse E (case deferred_state E html of None \<Rightarrow> [] | Some t \<Rightarrow> t)) (\<lambda>parsed.
     bind (get_prop parsed ''niobeMinimalClientData'') (\<lambda>n.
     bind (get_index n 0) (\<lambda>n0.
     get_index n0 1)))"

text \<open>A chain of property reads \<^verbatim>\<open>v.a.b.c\<close>.\<close>

fun get_path :: "jsval \<Rightarrow> string list \<Rightarrow> error + jsval" where
  "get_path v [] = Inr v"
| "get_path v (k # ks) = bind (get_prop v k) (\<lambda>x. get_path x ks)"

text \<open>A helper that works in place, seen from the variable that holds its argument: an
  object or an array is in the state the helper leaves it in, anything else is unchanged.\<close>

definition in_place :: "(jsval \<Rightarrow> jsval) \<Rightarrow> jsval \<Rightarrow> jsval" where
  "in_place f v = (case v of Obj ps \<Rightarrow> f v | Arr xs \<Rightarrow> f v | _ \<Rightarrow> v)"

text \<open>The subtree \<^verbatim>\<open>clientData.data.presentation.staysSearch.results\<close> of a page.\<close>

definition search_results :: "env \<Rightarrow> string \<Rightarrow> error + jsval" where
  "search_results E html =
     bind (clientData E html) (\<lambda>cd.
     get_path cd [''data'', ''presentation'', ''staysSearch'', ''results''])"

text \<open>The rest of the inner \<^verbatim>\<open>try\<close> of \<^verbatim>\<open>handleAirbnbSearch\<close>: the value assigned to
  \<^verbatim>\<open>staysSearchResults\<close>.\<close>

definition staysSearchResults :: "env \<Rightarrow> jsval \<Rightarrow> error + jsval" where
  "staysSearchResults E results0 =
     (let results = in_place (cleanObject E) results0 in
      bind (get_prop results ''searchResults'') (\<lambda>xs0.
      bind (as_array xs0) (\<lambda>xs.
      bind (mapM (\<lambda>result.
              bind (get_prop result ''listing'') (\<lambda>listing.
              bind (get_prop listing ''id'') (\<lambda>i.
              Inr (Obj (spread [(''url'', Str (BASE_URL @ ''/rooms/'' @ ToString i))] result)))))
            (map (\<lambda>result. flattenArraysInObject E
                              (pickBySchema E result (Some allowSearchResultSchema))) xs))
        (\<lambda>searchResults.
      bind (get_prop results ''paginationInfo'') (\<lambda>paginationInfo.
      Inr (Obj [(''searchResults'', Arr searchResults), (''paginationInfo'', paginationInfo)]))))))"

definition error_result :: "error \<Rightarrow> string \<Rightarrow> string \<Rightarrow> tool_result" where
  "error_result e key url =
     \<lparr>text_json = Obj [(''error'', Str (message e)), (key, Str url)], isError = True\<rparr>"

definition handleAirbnbSearch :: "env \<Rightarrow> search_params \<Rightarrow> world \<Rightarrow> tool_result \<times> world" where
  "handleAirbnbSearch E p w =
     (let url = searchUrl p;
          path = pathname url @ URL_search url
      in if ignoreRobotsText p \<noteq> Some True \<and> \<not> isPathAllowed E w path then
           (\<lparr>text_json = Obj [(''error'', Str robotsErrorMessage), (''url'', Str (URL_toString url))],
             isError = True\<rparr>, w)
         else
           (case fetchWithBrowserHeaders E BASE_URL [] 0 w of
              (Inl e, w1) \<Rightarrow> (error_result e ''searchUrl'' (URL_toString url), w1)
            | (Inr home, w1) \<Rightarrow>
                (case fetchWithBrowserHeaders E (URL_toString url) [] 0 w1 of
                   (Inl e, w2) \<Rightarrow> (error_result e ''searchUrl'' (URL_toString url), w2)
                 | (Inr response, w2) \<Rightarrow>
                     (case text_body response of
                        Inl e \<Rightarrow> (error_result e ''searchUrl'' (URL_toString url), w2)
                      | Inr html \<Rightarrow>
                          (let found = (case bind (search_results E html) (staysSearchResults E) of
                                          Inl e \<Rightarrow> Obj []
                                        | Inr v \<Rightarrow> v)
                           in (\<lparr>text_json = Obj (spread [(''searchUrl'', Str (URL_toString url))] found),
                                isError = False\<rparr>, w2))))))"

text \<open>The subtree \<^verbatim>\<open>clientData.data.presentation.stayProductDetailPage.sections.sections\<close>
  of a page.\<close>

definition page_sections :: "env \<Rightarrow> string \<Rightarrow> error + jsval" where
  "page_sections E html =
     bind (clientData E html) (\<lambda>cd.
     get_path cd [''data'', ''presentation'', ''stayProductDetailPage'', ''sections'', ''sections''])"

text \<open>The entry built for a section that passed the filter:
  \<^verbatim>\<open>{id: section.sectionId, ...flattenArraysInObject(pickBySchema(section.section,
  allowSectionSchema[section.sectionId]))}\<close>.\<close>

definition section_entry :: "env \<Rightarrow> jsval \<Rightarrow> error + jsval" where
  "section_entry E section =
     bind (get_prop section ''sectionId'') (\<lambda>sectionId.
     bind (get_prop section ''section'') (\<lambda>inner.
     Inr (Obj (spread [(''id'', sectionId)]
                 (flattenArraysInObject E
                    (pickBySchema E inner (map_of allowSectionSchema (ToString sectionId))))))))"

text \<open>The rest of the inner \<^verbatim>\<open>try\<close> of \<^verbatim>\<open>handleAirbnbListingDetails\<close>, on the value of
  \<^verbatim>\<open>sections\<close>: every section is cleaned in place, the sections are filtered by the keys of
  \<open>allowSectionSchema\<close>, the kept ones are mapped to their entries.\<close>

definition details :: "env \<Rightarrow> jsval \<Rightarrow> error + jsval" where
  "details E sections0 =
     bind (as_array sections0) (\<lambda>xs.
     (let sections = map (in_place (cleanObject E)) xs in
      bind (filterM (\<lambda>section.
              bind (get_prop section ''sectionId'') (\<lambda>sectionId.
              Inr (hasOwnProperty allowSectionSchema sectionId))) sections) (\<lambda>kept.
      bind (mapM (section_entry E) kept) (\<lambda>entries.
      Inr (Arr entries)))))"

definition handleAirbnbListingDetails :: "env \<Rightarrow> listing_params \<Rightarrow> world \<Rightarrow> tool_result \<times> world" where
  "handleAirbnbListingDetails E p w =
     (let url = listingUrl p;
          path = pathname url @ URL_search url
      in if ignoreRobotsText p \<noteq> Some True \<and> \<not> isPathAllowed E w path then
           (\<lparr>text_json = Obj [(''error'', Str robotsErrorMessage), (''url'', Str (URL_toString url))],
             isError = True\<rparr>, w)
         else
           (case fetchWithBrowserHeaders E BASE_URL [] 0 w of
              (Inl e, w1) \<Rightarrow> (error_result e ''listingUrl'' (URL_toString url), w1)
            | (Inr home, w1) \<Rightarrow>
                (case fetchWithBrowserHeaders E (URL_toString url)
                        [(''Referer'', BASE_URL @ ''/s/'' @ encodeURIComponent ''homes'')] 0 w1 of
                   (Inl e, w2) \<Rightarrow> (error_result e ''listingUrl'' (URL_toString url), w2)
                 | (Inr response, w2) \<Rightarrow>
                     (case text_body response of
                        Inl e \<Rightarrow> (error_result e ''listingUrl'' (URL_toString url), w2)
                      | Inr html \<Rightarrow>
                          (let found = (case bind (page_sections E html) (details E) of
                                          Inl e \<Rightarrow> Obj []
                                        | Inr v \<Rightarrow> v)
                           in (\<lparr>text_json = Obj [(''listingUrl'', Str (URL_toString url)), (''details'', found)],
                                isError = False\<rparr>, w2))))))"

section \<open>Traces of the client\<close>

text \<open>The statuses that the client follows.\<close>

definition is_redirect :: "response \<Rightarrow> bool" where
  "is_redirect r \<longleftrightarrow> status r = 307 \<or> status r = 302 \<or> status r = 301"

text \<open>The \<^verbatim>\<open>Cookie\<close> header that a jar gives to a request.\<close>

definition cookie_header :: "cookieJar \<Rightarrow> string option" where
  "cookie_header jar = (if getCookieString jar \<noteq> [] then Some (getCookieString jar) else None)"

text \<open>The responses among the answers of the network to the requests \<open>n\<close> up to \<open>m - 1\<close>,
  and the jar after \<^verbatim>\<open>parseCookies\<close> has run on each response of a list in turn.\<close>

definition received :: "env \<Rightarrow> nat \<Rightarrow> nat \<Rightarrow> response list" where
  "received E n m = concat (map (\<lambda>i. case net E i of Inl e \<Rightarrow> [] | Inr r \<Rightarrow> [r]) [n..<m])"

definition jar_after :: "cookieJar \<Rightarrow> response list \<Rightarrow> cookieJar" where
  "jar_after jar rs = foldl (\<lambda>j r. parseCookies j (set_cookie r)) jar rs"

text \<open>The state after one request is sent, and after the cookies of its response are
  stored.\<close>

definition after_request :: "world \<Rightarrow> string \<Rightarrow> (string \<times> string) list \<Rightarrow> world" where
  "after_request w url options =
     w\<lparr>sent := sent w @ [\<lparr>req_url = url, req_cookie = cookie_header (cookieJar w), req_headers = options\<rparr>]\<rparr>"

definition after_response :: "world \<Rightarrow> response \<Rightarrow> world" where
  "after_response w r = w\<lparr>cookieJar := parseCookies (cookieJar w) (set_cookie r)\<rparr>"


text \<open>A chain of \<open>k\<close> redirects, from request \<open>n\<close> on and from \<open>url\<close>: each answer is a
  response with a redirect status and a non-empty \<^verbatim>\<open>Location\<close> that resolves; the result is
  the URL the chain leads to.\<close>

fun redirect_chain :: "env \<Rightarrow> nat \<Rightarrow> string \<Rightarrow> nat \<Rightarrow> string option" where
  "redirect_chain E n url 0 = Some url"
| "redirect_chain E n url (Suc k) =
     (case net E n of
        Inl e \<Rightarrow> None
      | Inr r \<Rightarrow>
          if is_redirect r then
            (case location_header r of
               None \<Rightarrow> None
             | Some l \<Rightarrow>
                 if l = [] then None
                 else (case resolve E l url of
                         Inl e \<Rightarrow> None
                       | Inr url' \<Rightarrow> redirect_chain E (Suc n) url' k))
          else None)"

text \<open>Concrete responses, environments and states for the examples: a site whose pages
  carry no embedded state, with a \<^verbatim>\<open>robots.txt\<close> that denies every path and helpers that
  leave a value as it is; it answers a \<^verbatim>\<open>Location\<close> that is an absolute path.\<close>

definition redirect :: "int \<Rightarrow> string option \<Rightarrow> string list \<Rightarrow> response" where
  "redirect st l cookies =
     \<lparr>status = st, set_cookie = cookies, location_header = l, text_body = Inr []\<rparr>"

definition page :: "string list \<Rightarrow> string \<Rightarrow> response" where
  "page cookies html =
     \<lparr>status = 200, set_cookie = cookies, location_header = None, text_body = Inr html\<rparr>"

definition sample_env :: "(nat \<Rightarrow> error + response) \<Rightarrow> env" where
  "sample_env answers =
     \<lparr>net = answers,
      resolve = (\<lambda>l url. Inr (BASE_URL @ l)),
      robots_isAllowed = (\<lambda>content path agent. Some False),
      deferred_state = (\<lambda>html. None),
      json_parse = (\<lambda>t. None),
      SESSION_USER_AGENT = ''Mozilla/5.0'',
      cleanObject = (\<lambda>v. v),
      pickBySchema = (\<lambda>v s. v),
      flattenArraysInObject = (\<lambda>v. v)\<rparr>"

definition fresh :: world where
  "fresh = \<lparr>cookieJar = [], robotsTxtContent = [], sent = []\<rparr>"

definition two_hops :: "nat \<Rightarrow> error + response" where
  "two_hops n =
     (if n = 0 then Inr (redirect 302 (Some ''/a'') [''s=0''])
      else if n = 1 then Inr (redirect 302 (Some ''/b'') [''s=1; Path=/'', ''t=x''])
      else Inr (page [''u=9''] ''done''))"

definition six_hops :: "nat \<Rightarrow> error + response" where
  "six_hops n = (if n < 5 then Inr (redirect 302 (Some ''/a'') []) else Inr (redirect 302 None []))"

text \<open>What one call of the client leaves behind: the requests it sent, in order, the jar
  with every response it received recorded, each request carrying the cookies of the
  responses before it, and every answer but the last a redirect.\<close>

definition trace :: "env \<Rightarrow> world \<Rightarrow> world \<Rightarrow> request list \<Rightarrow> bool" where
  "trace E w w' reqs \<longleftrightarrow>
     sent w' = sent w @ reqs \<and> reqs \<noteq> [] \<and>
     robotsTxtContent w' = robotsTxtContent w \<and>
     cookieJar w' =
       jar_after (cookieJar w) (received E (length (sent w)) (length (sent w) + length reqs)) \<and>
     (\<forall>i < length reqs.
        req_cookie (reqs ! i) =
          cookie_header (jar_after (cookieJar w) (received E (length (sent w)) (length (sent w) + i)))) \<and>
     (\<forall>i. Suc i < length reqs \<longrightarrow> (\<exists>r. net E (length (sent w) + i) = Inr r \<and> is_redirect r))"

section \<open>Query parameters of a URL\<close>

text \<open>The names of the four guest parameters, the names of the query parameters of a
  URL in order, and the test of \<^verbatim>\<open>if (x)\<close> on a string or a number that may be missing.\<close>

definition guest_names :: "string list" where
  "guest_names = [''adults'', ''children'', ''infants'', ''pets'']"

definition param_names :: "URL \<Rightarrow> string list" where
  "param_names u = map fst (searchParams u)"

definition given :: "string option \<Rightarrow> bool" where
  "given x \<longleftrightarrow> (case x of None \<Rightarrow> False | Some v \<Rightarrow> v \<noteq> [])"

definition given_number :: "int option \<Rightarrow> bool" where
  "given_number x \<longleftrightarrow> (case x of None \<Rightarrow> False | Some n \<Rightarrow> n \<noteq> 0)"

text \<open>The parameters \<^verbatim>\<open>{location: "Paris"}\<close> and \<^verbatim>\<open>{id: "12345"}\<close>.\<close>

definition paris :: search_params where
  "paris = \<lparr>checkin = None, checkout = None, adults = None, children = None, infants = None,
            pets = None, ignoreRobotsText = None, location = Some ''Paris'', placeId = None,
            minPrice = None, maxPrice = None, cursor = None\<rparr>"

definition room :: listing_params where
  "room = \<lparr>checkin = None, checkout = None, adults = None, children = None, infants = None,
           pets = None, ignoreRobotsText = None, listing_id = ''12345''\<rparr>"

section \<open>Sections and examples of pages\<close>





text \<open>More examples: a state whose \<^verbatim>\<open>robots.txt\<close> is not empty, a site that answers every
  request with a page without embedded state, and a listing page with three sections.\<close>

definition denied :: world where
  "denied = \<lparr>cookieJar = [], robotsTxtContent = ''User-agent: *'' @ [CHR 0x0A] @ ''Disallow: /'', sent = []\<rparr>"

definition plain_site :: "nat \<Rightarrow> error + response" where
  "plain_site n = Inr (page [] ''<html></html>'')"




section \<open>Cookies: what an entry stores\<close>

lemma split_no_sep: "sep \<notin> set a \<Longrightarrow> split sep a = [a]"
  by (induction a) auto

lemma split_at_sep: "sep \<notin> set a \<Longrightarrow> split sep (a @ sep # rest) = a # split sep rest"
  by (induction a) auto

lemma map_of_Map_set: "map_of (Map_set k v m) = (map_of m)(k \<mapsto> v)"
  by (induction m) (auto simp: fun_eq_iff)

lemma parseCookies_append:
  "parseCookies jar (xs @ ys) = parseCookies (parseCookies jar xs) ys"
  by (simp add: parseCookies_def)

lemma parseCookies_Cons:
  "parseCookies jar (x # xs) = parseCookies (record_cookie jar x) xs"
  by (simp add: parseCookies_def)

lemma record_cookie_pair:
  assumes "CHR ''='' \<notin> set name" "CHR '';'' \<notin> set name"
      and "CHR ''='' \<notin> set v" "CHR '';'' \<notin> set v"
      and "entry = name @ ''='' @ v \<or> entry = name @ ''='' @ v @ '';'' @ attributes"
  shows "record_cookie jar entry =
           (if name \<noteq> [] \<and> v \<noteq> [] then Map_set (trim name) (trim v) jar else jar)"
proof -
  have semi: "CHR '';'' \<notin> set (name @ ''='' @ v)"
    using assms by simp
  have main: "\<exists>rest. split CHR '';'' entry = (name @ ''='' @ v) # rest"
  proof (cases "entry = name @ ''='' @ v")
    case True
    then show ?thesis using split_no_sep [OF semi] by simp
  next
    case False
    with assms(5) have "entry = (name @ ''='' @ v) @ CHR '';'' # attributes" by simp
    then show ?thesis using split_at_sep [OF semi] by simp
  qed
  have pieces: "split CHR ''='' (name @ ''='' @ v) = [name, v]"
    using split_at_sep [OF assms(1), of v] split_no_sep [OF assms(3)] by simp
  from main pieces show ?thesis
    by (auto simp: record_cookie_def)
qed

text \<open>
  Claim C4, as the code has it. Take a \<^verbatim>\<open>Set-Cookie\<close> entry whose text before the first
  \<^verbatim>\<open>;\<close> is \<open>name=v\<close>, with no further \<^verbatim>\<open>=\<close> in \<open>v\<close>, followed or not by attributes. When
  \<open>name\<close> and \<open>v\<close> are both non-empty, recording it stores the trimmed value under the
  trimmed name, over any cookie of that name, and the attributes play no part; when one
  of them is empty the entry is skipped and the jar stays as it was. The entries of a
  response are recorded in order. After \<^verbatim>\<open>["a=1", "b=2; Path=/"]\<close> the jar serializes to
  \<^verbatim>\<open>a=1; b=2\<close>, and after \<^verbatim>\<open>["a=3"]\<close> on top of that to \<^verbatim>\<open>a=3; b=2\<close>.
\<close>

theorem parseCookies_stores_pair:
  assumes "CHR ''='' \<notin> set name" "CHR '';'' \<notin> set name"
      and "CHR ''='' \<notin> set v" "CHR '';'' \<notin> set v"
      and "entry = name @ ''='' @ v \<or> entry = name @ ''='' @ v @ '';'' @ attributes"
  shows "parseCookies jar (before @ entry # after) =
           parseCookies
             (if name \<noteq> [] \<and> v \<noteq> []
              then Map_set (trim name) (trim v) (parseCookies jar before)
              else parseCookies jar before) after
         \<and> map_of (Map_set (trim name) (trim v) (parseCookies jar before)) =
             (map_of (parseCookies jar before))(trim name \<mapsto> trim v)
         \<and> getCookieString (parseCookies [] [''a=1'', ''b=2; Path=/'']) = ''a=1; b=2''
         \<and> getCookieString (parseCookies (parseCookies [] [''a=1'', ''b=2; Path=/'']) [''a=3''])
             = ''a=3; b=2''"
proof -
  have ex: "getCookieString (parseCookies [] [''a=1'', ''b=2; Path=/'']) = ''a=1; b=2''"
    by (simp add: parseCookies_def record_cookie_def getCookieString_def trim_def is_space_def)
  have ex2: "getCookieString (parseCookies (parseCookies [] [''a=1'', ''b=2; Path=/'']) [''a=3''])
             = ''a=3; b=2''"
    by (simp add: parseCookies_def record_cookie_def getCookieString_def trim_def is_space_def)
  show ?thesis
    using record_cookie_pair [OF assms, of "parseCookies jar before"] ex ex2
    by (simp add: parseCookies_append parseCookies_Cons map_of_Map_set)
qed

theorem parseCookies_stores_pair_witness:
  "CHR ''='' \<notin> set ''b'' \<and> CHR '';'' \<notin> set ''b'' \<and> CHR ''='' \<notin> set ''2'' \<and> CHR '';'' \<notin> set ''2''
   \<and> parseCookies [] ([''a=1''] @ ''b=2; Path=/'' # [''c=3'']) =
       parseCookies (Map_set ''b'' ''2'' (parseCookies [] [''a=1''])) [''c=3'']
   \<and> parseCookies [] [''a=1'', ''b=2; Path=/'', ''c=3''] = [(''a'', ''1''), (''b'', ''2''), (''c'', ''3'')]"
  using parseCookies_stores_pair [of "''b''" "''2''" "''b=2; Path=/''" "'' Path=/''" "[]" "[''a=1'']" "[''c=3'']"]
  by (simp add: parseCookies_def record_cookie_def trim_def is_space_def)

text \<open>
  Claim C4 as stated fails: the entry \<^verbatim>\<open>a=; Max-Age=0\<close> has the pair \<^verbatim>\<open>a=\<close> before its
  first \<^verbatim>\<open>;\<close>, and recording it neither stores that pair nor touches the cookie \<^verbatim>\<open>a\<close> of
  the jar; the entry \<^verbatim>\<open>k=v=w; Path=/\<close> stores \<^verbatim>\<open>v\<close>, not \<^verbatim>\<open>v=w\<close>.
\<close>

theorem parseCookies_not_exact_pair:
  "parseCookies [(''a'', ''1'')] [''a=; Max-Age=0''] = [(''a'', ''1'')]
   \<and> parseCookies [] [''k=v=w; Path=/''] = [(''k'', ''v'')]"
  by (simp add: parseCookies_def record_cookie_def trim_def is_space_def)

section \<open>The client: redirects and cookies\<close>

lemma fetch_rejected:
  "net E (length (sent w)) = Inl e \<Longrightarrow>
   fetchWithBrowserHeaders E url options rc w = (Inl e, after_request w url options)"
  by (subst fetchWithBrowserHeaders.simps) (simp add: after_request_def cookie_header_def Let_def)

lemma fetch_final:
  "net E (length (sent w)) = Inr r \<Longrightarrow> \<not> is_redirect r \<Longrightarrow>
   fetchWithBrowserHeaders E url options rc w =
     (Inr r, after_response (after_request w url options) r)"
  by (subst fetchWithBrowserHeaders.simps)
     (simp add: after_request_def after_response_def cookie_header_def is_redirect_def Let_def)

lemma fetch_too_many:
  "net E (length (sent w)) = Inr r \<Longrightarrow> is_redirect r \<Longrightarrow> MAX_REDIRECTS \<le> rc \<Longrightarrow>
   fetchWithBrowserHeaders E url options rc w =
     (Inl (too_many_redirects url), after_response (after_request w url options) r)"
  by (subst fetchWithBrowserHeaders.simps)
     (simp add: after_request_def after_response_def cookie_header_def is_redirect_def Let_def)

lemma fetch_missing_location:
  "net E (length (sent w)) = Inr r \<Longrightarrow> is_redirect r \<Longrightarrow> rc < MAX_REDIRECTS \<Longrightarrow>
   location_header r = None \<or> location_header r = Some [] \<Longrightarrow>
   fetchWithBrowserHeaders E url options rc w =
     (Inl (missing_location (status r)), after_response (after_request w url options) r)"
  by (subst fetchWithBrowserHeaders.simps)
     (auto simp add: after_request_def after_response_def cookie_header_def is_redirect_def Let_def)

lemma fetch_unresolved:
  "net E (length (sent w)) = Inr r \<Longrightarrow> is_redirect r \<Longrightarrow> rc < MAX_REDIRECTS \<Longrightarrow>
   location_header r = Some l \<Longrightarrow> l \<noteq> [] \<Longrightarrow> resolve E l url = Inl e \<Longrightarrow>
   fetchWithBrowserHeaders E url options rc w =
     (Inl e, after_response (after_request w url options) r)"
  by (subst fetchWithBrowserHeaders.simps)
     (auto simp add: after_request_def after_response_def cookie_header_def is_redirect_def Let_def)

lemma fetch_follow:
  "net E (length (sent w)) = Inr r \<Longrightarrow> is_redirect r \<Longrightarrow> rc < MAX_REDIRECTS \<Longrightarrow>
   location_header r = Some l \<Longrightarrow> l \<noteq> [] \<Longrightarrow> resolve E l url = Inr url' \<Longrightarrow>
   fetchWithBrowserHeaders E url options rc w =
     fetchWithBrowserHeaders E url' options (Suc rc) (after_response (after_request w url options) r)"
  by (subst fetchWithBrowserHeaders.simps)
     (auto simp add: after_request_def after_response_def cookie_header_def is_redirect_def Let_def)


lemma received_empty: "received E n n = []"
  by (simp add: received_def)

lemma received_one:
  "received E n (Suc n) = (case net E n of Inl e \<Rightarrow> [] | Inr r \<Rightarrow> [r])"
  by (simp add: received_def)

lemma received_step:
  "net E n = Inr r \<Longrightarrow> received E n (Suc (n + k)) = r # received E (Suc n) (Suc n + k)"
  by (simp add: received_def upt_conv_Cons del: upt_Suc)

lemma jar_after_Cons:
  "jar_after jar (r # rs) = jar_after (parseCookies jar (set_cookie r)) rs"
  by (simp add: jar_after_def)

lemma jar_after_Nil: "jar_after jar [] = jar"
  by (simp add: jar_after_def)

lemma trace_rejected:
  assumes "net E (length (sent w)) = Inl e"
  shows "\<exists>reqs. trace E w (after_request w url options) reqs"
proof -
  have "trace E w (after_request w url options)
          [\<lparr>req_url = url, req_cookie = cookie_header (cookieJar w), req_headers = options\<rparr>]"
    using assms
    by (simp add: trace_def after_request_def received_one received_empty jar_after_Nil)
  then show ?thesis ..
qed

lemma trace_answered:
  assumes "net E (length (sent w)) = Inr r"
  shows "\<exists>reqs. trace E w (after_response (after_request w url options) r) reqs"
proof -
  have "trace E w (after_response (after_request w url options) r)
          [\<lparr>req_url = url, req_cookie = cookie_header (cookieJar w), req_headers = options\<rparr>]"
    using assms
    by (simp add: trace_def after_request_def after_response_def received_one received_empty
                  jar_after_Cons jar_after_Nil)
  then show ?thesis ..
qed

lemma trace_follow:
  assumes r: "net E (length (sent w)) = Inr r" "is_redirect r"
      and t: "trace E (after_response (after_request w url options) r) w' reqs"
  shows "\<exists>reqs. trace E w w' reqs"
proof -
  let ?req = "\<lparr>req_url = url, req_cookie = cookie_header (cookieJar w), req_headers = options\<rparr>"
  let ?n = "length (sent w)"
  let ?w2 = "after_response (after_request w url options) r"
  have s2: "sent ?w2 = sent w @ [?req]" and j2: "cookieJar ?w2 = parseCookies (cookieJar w) (set_cookie r)"
    and r2: "robotsTxtContent ?w2 = robotsTxtContent w"
    by (simp_all add: after_request_def after_response_def)
  have len: "length (sent ?w2) = Suc ?n" using s2 by simp
  have a: "sent w' = sent w @ (?req # reqs)" using t s2 by (simp add: trace_def)
  have b: "cookieJar w' = jar_after (cookieJar w) (received E ?n (?n + length (?req # reqs)))"
    using t j2 len received_step [OF r(1), of "length reqs"] by (simp add: trace_def jar_after_Cons)
  have c: "req_cookie ((?req # reqs) ! i) =
             cookie_header (jar_after (cookieJar w) (received E ?n (?n + i)))"
    if "i < length (?req # reqs)" for i
  proof (cases i)
    case 0
    then show ?thesis by (simp add: received_empty jar_after_Nil)
  next
    case (Suc k)
    with that have "k < length reqs" by simp
    with t have "req_cookie (reqs ! k) =
        cookie_header (jar_after (cookieJar ?w2) (received E (length (sent ?w2)) (length (sent ?w2) + k)))"
      unfolding trace_def by blast
    then show ?thesis
      using Suc j2 len received_step [OF r(1), of k] by (simp add: jar_after_Cons)
  qed
  have d: "\<exists>r. net E (?n + i) = Inr r \<and> is_redirect r" if "Suc i < length (?req # reqs)" for i
  proof (cases i)
    case 0
    then show ?thesis using r by simp
  next
    case (Suc k)
    with that have "Suc k < length reqs" by simp
    with t have "\<exists>r. net E (length (sent ?w2) + k) = Inr r \<and> is_redirect r"
      unfolding trace_def by blast
    then show ?thesis using Suc len by simp
  qed
  have "trace E w w' (?req # reqs)"
    unfolding trace_def using a b c d t r2 by (simp add: trace_def)
  then show ?thesis ..
qed

lemma fetch_trace:
  "fetchWithBrowserHeaders E url options rc w = (res, w') \<Longrightarrow> \<exists>reqs. trace E w w' reqs"
proof (induction "MAX_REDIRECTS - rc" arbitrary: rc url w)
  case 0
  then have max: "MAX_REDIRECTS \<le> rc" by simp
  show ?case
  proof (cases "net E (length (sent w))")
    case (Inl e)
    from "0.prems" fetch_rejected [OF Inl] have "w' = after_request w url options" by simp
    then show ?thesis using trace_rejected [OF Inl] by simp
  next
    case (Inr r)
    have "w' = after_response (after_request w url options) r"
    proof (cases "is_redirect r")
      case True
      from "0.prems" fetch_too_many [OF Inr True max] show ?thesis by simp
    next
      case False
      from "0.prems" fetch_final [OF Inr False] show ?thesis by simp
    qed
    then show ?thesis using trace_answered [OF Inr] by simp
  qed
next
  case (Suc k)
  then have lt: "rc < MAX_REDIRECTS" by simp
  show ?case
  proof (cases "net E (length (sent w))")
    case (Inl e)
    from Suc.prems fetch_rejected [OF Inl] have "w' = after_request w url options" by simp
    then show ?thesis using trace_rejected [OF Inl] by simp
  next
    case answered: (Inr r)
    let ?w2 = "after_response (after_request w url options) r"
    show ?thesis
    proof (cases "is_redirect r")
      case False
      from Suc.prems fetch_final [OF answered False] have "w' = ?w2" by simp
      then show ?thesis using trace_answered [OF answered] by simp
    next
      case True
      show ?thesis
      proof (cases "location_header r = None \<or> location_header r = Some []")
        case True
        from Suc.prems fetch_missing_location [OF answered \<open>is_redirect r\<close> lt True]
        have "w' = ?w2" by simp
        then show ?thesis using trace_answered [OF answered] by simp
      next
        case False
        then obtain l where l: "location_header r = Some l" "l \<noteq> []" by auto
        show ?thesis
        proof (cases "resolve E l url")
          case (Inl e)
          from Suc.prems fetch_unresolved [OF answered True lt l Inl] have "w' = ?w2" by simp
          then show ?thesis using trace_answered [OF answered] by simp
        next
          case (Inr url')
          have "fetchWithBrowserHeaders E url' options (Suc rc) ?w2 = (res, w')"
            using Suc.prems fetch_follow [OF answered True lt l Inr] by simp
          moreover have "k = MAX_REDIRECTS - Suc rc" using Suc.hyps(2) by simp
          ultimately have "\<exists>reqs. trace E ?w2 w' reqs" by (rule Suc.hyps(1) [rotated])
          then obtain reqs where "trace E ?w2 w' reqs" ..
          from trace_follow [OF answered True this] show ?thesis .
        qed
      qed
    qed
  qed
qed


lemma follow_chain:
  "redirect_chain E (length (sent w)) url k = Some url' \<Longrightarrow> rc + k \<le> MAX_REDIRECTS \<Longrightarrow>
   \<exists>w2. fetchWithBrowserHeaders E url options rc w = fetchWithBrowserHeaders E url' options (rc + k) w2
        \<and> length (sent w2) = length (sent w) + k"
proof (induction k arbitrary: url w rc)
  case 0
  then show ?case by auto
next
  case (Suc k)
  from Suc.prems(1) obtain r l u where
    r: "net E (length (sent w)) = Inr r" "is_redirect r" "location_header r = Some l" "l \<noteq> []"
       "resolve E l url = Inr u"
    and rest: "redirect_chain E (Suc (length (sent w))) u k = Some url'"
    by (auto split: sum.splits if_splits option.splits)
  let ?w2 = "after_response (after_request w url options) r"
  have len: "length (sent ?w2) = Suc (length (sent w))"
    by (simp add: after_request_def after_response_def)
  from Suc.prems(2) have lt: "rc < MAX_REDIRECTS" and le: "Suc rc + k \<le> MAX_REDIRECTS" by simp_all
  from rest len have "redirect_chain E (length (sent ?w2)) u k = Some url'" by simp
  from Suc.IH [OF this le, of ] obtain w3 where
    "fetchWithBrowserHeaders E u options (Suc rc) ?w2 = fetchWithBrowserHeaders E url' options (Suc rc + k) w3"
    "length (sent w3) = length (sent ?w2) + k" by blast
  with fetch_follow [OF r(1) r(2) lt r(3) r(4) r(5), of options] len show ?case
    by (intro exI [of _ w3]) simp
qed

text \<open>
  Claim C3. Let the answers to the requests of a call with \<^verbatim>\<open>redirectCount\<close> 0 be a chain of
  \<open>k\<close> redirects (status 301, 302 or 307, each with a \<^verbatim>\<open>Location\<close> that resolves) followed
  by a response \<open>r\<close>. If \<open>k\<close> is at most 5 and \<open>r\<close> is no redirect, the call returns \<open>r\<close>;
  the chain 302, 302, 200 is the case \<open>k = 2\<close>. If \<open>k\<close> is 5 and \<open>r\<close> is a redirect again, the
  sixth of the chain, the call fails with the too-many-redirects error, which is neither
  the missing-location error nor a transport error.
\<close>

theorem redirect_bound:
  assumes "redirect_chain E (length (sent w)) url k = Some url'"
      and "net E (length (sent w) + k) = Inr r"
  shows "(k \<le> 5 \<and> \<not> is_redirect r \<longrightarrow>
            fst (fetchWithBrowserHeaders E url options 0 w) = Inr r)
       \<and> (k = 5 \<and> is_redirect r \<longrightarrow>
            fst (fetchWithBrowserHeaders E url options 0 w) = Inl (too_many_redirects url')
            \<and> (\<forall>st. too_many_redirects url' \<noteq> missing_location st)
            \<and> (\<forall>m. too_many_redirects url' \<noteq> FetchError m))"
proof -
  have arrive: "\<exists>w2. fetchWithBrowserHeaders E url options 0 w =
                       fetchWithBrowserHeaders E url' options k w2
                     \<and> net E (length (sent w2)) = Inr r" if "k \<le> 5"
  proof -
    from that have "0 + k \<le> MAX_REDIRECTS" by (simp add: MAX_REDIRECTS_def)
    from follow_chain [OF assms(1) this, of options] assms(2) show ?thesis by auto
  qed
  have returns: "fst (fetchWithBrowserHeaders E url options 0 w) = Inr r"
    if "k \<le> 5" "\<not> is_redirect r"
  proof -
    from arrive [OF that(1)] obtain w2 where
      "fetchWithBrowserHeaders E url options 0 w = fetchWithBrowserHeaders E url' options k w2"
      "net E (length (sent w2)) = Inr r" by blast
    with fetch_final [OF this(2) that(2), of url' options k] show ?thesis by simp
  qed
  have fails: "fst (fetchWithBrowserHeaders E url options 0 w) = Inl (too_many_redirects url')"
    if "k = 5" "is_redirect r"
  proof -
    from that(1) have "k \<le> 5" by simp
    from arrive [OF this] obtain w2 where
      w2: "fetchWithBrowserHeaders E url options 0 w = fetchWithBrowserHeaders E url' options k w2"
          "net E (length (sent w2)) = Inr r" by blast
    have "MAX_REDIRECTS \<le> k" using that(1) by (simp add: MAX_REDIRECTS_def)
    from fetch_too_many [OF w2(2) that(2) this, of url' options] w2(1) show ?thesis by simp
  qed
  have distinct: "too_many_redirects url' \<noteq> missing_location st"
                 "too_many_redirects url' \<noteq> FetchError m" for st m
    by (simp_all add: too_many_redirects_def missing_location_def)
  from returns fails distinct show ?thesis by blast
qed

theorem redirect_bound_witness:
  "redirect_chain (sample_env two_hops) (length (sent fresh)) BASE_URL 2 = Some (BASE_URL @ ''/b'')
   \<and> net (sample_env two_hops) (length (sent fresh) + 2) = Inr (page [''u=9''] ''done'')
   \<and> \<not> is_redirect (page [''u=9''] ''done'')
   \<and> fst (fetchWithBrowserHeaders (sample_env two_hops) BASE_URL [] 0 fresh) = Inr (page [''u=9''] ''done'')
   \<and> redirect_chain (sample_env six_hops) (length (sent fresh)) BASE_URL 5 = Some (BASE_URL @ ''/a'')
   \<and> net (sample_env six_hops) (length (sent fresh) + 5) = Inr (redirect 302 None [])
   \<and> is_redirect (redirect 302 None [])
   \<and> fst (fetchWithBrowserHeaders (sample_env six_hops) BASE_URL [] 0 fresh)
       = Inl (too_many_redirects (BASE_URL @ ''/a''))"
proof -
  have c2: "redirect_chain (sample_env two_hops) (length (sent fresh)) BASE_URL 2 = Some (BASE_URL @ ''/b'')"
    by (simp add: numeral_2_eq_2 sample_env_def two_hops_def fresh_def redirect_def is_redirect_def)
  have n2: "net (sample_env two_hops) (length (sent fresh) + 2) = Inr (page [''u=9''] ''done'')"
    by (simp add: sample_env_def two_hops_def fresh_def)
  have c5: "redirect_chain (sample_env six_hops) (length (sent fresh)) BASE_URL 5 = Some (BASE_URL @ ''/a'')"
    by (simp add: eval_nat_numeral sample_env_def six_hops_def fresh_def redirect_def is_redirect_def)
  have n5: "net (sample_env six_hops) (length (sent fresh) + 5) = Inr (redirect 302 None [])"
    by (simp add: sample_env_def six_hops_def fresh_def)
  have p: "\<not> is_redirect (page [''u=9''] ''done'')" "is_redirect (redirect 302 None [])"
    by (simp_all add: is_redirect_def page_def redirect_def)
  from redirect_bound [OF c2 n2, of "[]"] redirect_bound [OF c5 n5, of "[]"] c2 n2 c5 n5 p
  show ?thesis by simp
qed


text \<open>
  Claim C5. Whatever a call of \<^verbatim>\<open>fetchWithBrowserHeaders\<close> ends with, a response or an
  exception, it has sent at least one request, the jar it leaves holds the cookies of
  every response it received, recorded in the order of the responses, each request it
  sent carried the cookies of all the responses received before it, so that recording
  comes before the redirect is followed, and every answer before the last was a redirect
  response.
\<close>

theorem cookies_recorded_on_every_response:
  assumes "fetchWithBrowserHeaders E url options rc w = (res, w')"
  shows "\<exists>reqs. sent w' = sent w @ reqs \<and> reqs \<noteq> [] \<and>
           cookieJar w' =
             jar_after (cookieJar w) (received E (length (sent w)) (length (sent w) + length reqs)) \<and>
           (\<forall>i < length reqs.
              req_cookie (reqs ! i) =
                cookie_header (jar_after (cookieJar w) (received E (length (sent w)) (length (sent w) + i)))) \<and>
           (\<forall>i. Suc i < length reqs \<longrightarrow> (\<exists>r. net E (length (sent w) + i) = Inr r \<and> is_redirect r))"
proof -
  from fetch_trace [OF assms] obtain reqs where "trace E w w' reqs" ..
  then show ?thesis unfolding trace_def by blast
qed

lemma two_hops_run:
  "fetchWithBrowserHeaders (sample_env two_hops) BASE_URL [] 0 fresh =
     (Inr (page [''u=9''] ''done''),
      \<lparr>cookieJar = [(''s'', ''1''), (''t'', ''x''), (''u'', ''9'')],
       robotsTxtContent = [],
       sent = [\<lparr>req_url = ''https://www.airbnb.ca'', req_cookie = None, req_headers = []\<rparr>,
               \<lparr>req_url = ''https://www.airbnb.ca/a'', req_cookie = Some ''s=0'', req_headers = []\<rparr>,
               \<lparr>req_url = ''https://www.airbnb.ca/b'', req_cookie = Some ''s=1; t=x'', req_headers = []\<rparr>]\<rparr>)"
  by code_simp

theorem cookies_recorded_on_every_response_witness:
  "fetchWithBrowserHeaders (sample_env two_hops) BASE_URL [] 0 fresh =
     (Inr (page [''u=9''] ''done''),
      \<lparr>cookieJar = [(''s'', ''1''), (''t'', ''x''), (''u'', ''9'')],
       robotsTxtContent = [],
       sent = [\<lparr>req_url = ''https://www.airbnb.ca'', req_cookie = None, req_headers = []\<rparr>,
               \<lparr>req_url = ''https://www.airbnb.ca/a'', req_cookie = Some ''s=0'', req_headers = []\<rparr>,
               \<lparr>req_url = ''https://www.airbnb.ca/b'', req_cookie = Some ''s=1; t=x'', req_headers = []\<rparr>]\<rparr>)
   \<and> jar_after [] (received (sample_env two_hops) 0 3) = [(''s'', ''1''), (''t'', ''x''), (''u'', ''9'')]
   \<and> cookie_header (jar_after [] (received (sample_env two_hops) 0 2)) = Some ''s=1; t=x''"
proof -
  have j: "jar_after [] (received (sample_env two_hops) 0 3) = [(''s'', ''1''), (''t'', ''x''), (''u'', ''9'')]"
    by code_simp
  have c: "cookie_header (jar_after [] (received (sample_env two_hops) 0 2)) = Some ''s=1; t=x''"
    by code_simp
  from cookies_recorded_on_every_response [OF two_hops_run] two_hops_run j c show ?thesis by simp
qed

text \<open>
  Claim C7, as the code has it. A response with status 301, 302 or 307 and no \<^verbatim>\<open>Location\<close>
  header (or an empty one) makes the call fail with the missing-location error, after its
  cookies are stored, when \<^verbatim>\<open>redirectCount\<close> is below 5; at 5 and above the check of the
  count comes first and the call fails with the too-many-redirects error. The
  missing-location error differs from every too-many-redirects error and from every
  transport error.
\<close>

theorem missing_location_below_limit:
  assumes "net E (length (sent w)) = Inr r" and "is_redirect r"
      and "location_header r = None \<or> location_header r = Some []"
  shows "(rc < 5 \<longrightarrow>
            fetchWithBrowserHeaders E url options rc w =
              (Inl (missing_location (status r)), after_response (after_request w url options) r))
       \<and> (5 \<le> rc \<longrightarrow>
            fetchWithBrowserHeaders E url options rc w =
              (Inl (too_many_redirects url), after_response (after_request w url options) r))
       \<and> (\<forall>u. missing_location (status r) \<noteq> too_many_redirects u)
       \<and> (\<forall>m. missing_location (status r) \<noteq> FetchError m)"
proof -
  have below: "fetchWithBrowserHeaders E url options rc w =
      (Inl (missing_location (status r)), after_response (after_request w url options) r)" if "rc < 5"
    using fetch_missing_location [OF assms(1) assms(2) _ assms(3), of rc url options] that
    by (simp add: MAX_REDIRECTS_def)
  have at_limit: "fetchWithBrowserHeaders E url options rc w =
      (Inl (too_many_redirects url), after_response (after_request w url options) r)" if "5 \<le> rc"
    using fetch_too_many [OF assms(1) assms(2), of rc url options] that
    by (simp add: MAX_REDIRECTS_def)
  have distinct: "missing_location (status r) \<noteq> too_many_redirects u"
                 "missing_location (status r) \<noteq> FetchError m" for u m
    by (simp_all add: too_many_redirects_def missing_location_def)
  from below at_limit distinct show ?thesis by blast
qed

theorem missing_location_below_limit_witness:
  "net (sample_env (\<lambda>n. Inr (redirect 301 None [''a=1'']))) (length (sent fresh)) = Inr (redirect 301 None [''a=1''])
   \<and> is_redirect (redirect 301 None [''a=1''])
   \<and> location_header (redirect 301 None [''a=1'']) = None
   \<and> fst (fetchWithBrowserHeaders (sample_env (\<lambda>n. Inr (redirect 301 None [''a=1'']))) BASE_URL [] 0 fresh)
       = Inl (Error ''Redirect status 301 but no Location header'')
   \<and> cookieJar (snd (fetchWithBrowserHeaders (sample_env (\<lambda>n. Inr (redirect 301 None [''a=1'']))) BASE_URL [] 0 fresh))
       = [(''a'', ''1'')]
   \<and> fst (fetchWithBrowserHeaders (sample_env (\<lambda>n. Inr (redirect 301 None [''a=1'']))) BASE_URL [] 5 fresh)
       = Inl (Error ''Too many redirects while fetching https://www.airbnb.ca'')"
proof -
  let ?E = "sample_env (\<lambda>n. Inr (redirect 301 None [''a=1'']))"
  have n: "net ?E (length (sent fresh)) = Inr (redirect 301 None [''a=1''])"
    by (simp add: sample_env_def)
  have r: "is_redirect (redirect 301 None [''a=1''])"
    by (simp add: is_redirect_def redirect_def)
  have l: "location_header (redirect 301 None [''a=1'']) = None \<or> location_header (redirect 301 None [''a=1'']) = Some []"
    by (simp add: redirect_def)
  have m: "missing_location (status (redirect 301 None [''a=1''])) = Error ''Redirect status 301 but no Location header''"
    by code_simp
  have t: "too_many_redirects BASE_URL = Error ''Too many redirects while fetching https://www.airbnb.ca''"
    by code_simp
  have j: "cookieJar (after_response (after_request fresh BASE_URL []) (redirect 301 None [''a=1''])) = [(''a'', ''1'')]"
    by code_simp
  from missing_location_below_limit [OF n r l, of 0 BASE_URL "[]"]
       missing_location_below_limit [OF n r l, of 5 BASE_URL "[]"] n r l m t j
  show ?thesis by (simp add: redirect_def)
qed

text \<open>
  Claim C7 as stated fails: after five redirects that were followed, a sixth response with
  status 302 and no \<^verbatim>\<open>Location\<close> header ends the call with the too-many-redirects error.
\<close>

theorem missing_location_at_limit:
  "six_hops 5 = Inr (redirect 302 None [])
   \<and> fst (fetchWithBrowserHeaders (sample_env six_hops) BASE_URL [] 0 fresh)
       = Inl (Error ''Too many redirects while fetching https://www.airbnb.ca/a'')
   \<and> missing_location 302 = Error ''Redirect status 302 but no Location header''"
  by code_simp

section \<open>The URLs of the two handlers\<close>

lemma digit_cases:
  "d < 10 \<Longrightarrow> d = 0 \<or> d = 1 \<or> d = 2 \<or> d = 3 \<or> d = 4 \<or> d = 5 \<or> d = 6 \<or> d = 7 \<or> d = 8 \<or> d = (9::nat)"
  by arith

lemma digit_value_digit: "d < 10 \<Longrightarrow> digit_value (''0123456789'' ! d) = Some d"
  using digit_cases [of d] by (auto simp: digit_value_def)

lemma dec_digits: "c \<in> set (dec n) \<Longrightarrow> \<exists>d<10. c = ''0123456789'' ! d"
proof (induction n rule: dec.induct)
  case (1 n)
  show ?case
  proof (cases "n < 10")
    case True
    with "1.prems" show ?thesis by (subst (asm) dec.simps) auto
  next
    case False
    with "1.prems" have "c \<in> set (dec (n div 10)) \<or> c = ''0123456789'' ! (n mod 10)"
      by (subst (asm) dec.simps) auto
    with "1.IH" [OF False] show ?thesis by (metis mod_less_divisor zero_less_numeral)
  qed
qed

lemma dec_not_Nil: "dec n \<noteq> []"
  by (subst dec.simps) simp

lemma digits_value_snoc:
  "digits_value radix (ds @ [c]) =
     digits_value radix ds * radix + (case digit_value c of None \<Rightarrow> 0 | Some d \<Rightarrow> d)"
  by (simp add: digits_value_def)

lemma digits_value_dec: "digits_value 10 (dec n) = n"
proof (induction n rule: dec.induct)
  case (1 n)
  show ?case
  proof (cases "n < 10")
    case True
    then show ?thesis
      by (subst dec.simps) (simp add: digits_value_def digit_value_digit)
  next
    case False
    with "1.IH" show ?thesis
      by (subst dec.simps) (simp add: digits_value_snoc digit_value_digit)
  qed
qed

lemma dec_is_digit: "c \<in> set (dec n) \<Longrightarrow> is_digit 10 c"
  using dec_digits [of c n] by (auto simp: is_digit_def digit_value_digit)

lemma digit_plain:
  assumes "d < 10"
  shows "\<not> is_space (''0123456789'' ! d)" "''0123456789'' ! d \<noteq> CHR ''-''"
        "''0123456789'' ! d \<noteq> CHR ''+''" "''0123456789'' ! d \<noteq> CHR ''x''"
        "''0123456789'' ! d \<noteq> CHR ''X''"
  using digit_cases [OF assms] by (auto simp: is_space_def)

lemma dec_plain:
  assumes "c \<in> set (dec n)"
  shows "\<not> is_space c" "c \<noteq> CHR ''-''" "c \<noteq> CHR ''+''" "c \<noteq> CHR ''x''" "c \<noteq> CHR ''X''"
proof -
  from dec_digits [OF assms] obtain d where d: "d < 10" "c = ''0123456789'' ! d" by blast
  show "\<not> is_space c" "c \<noteq> CHR ''-''" "c \<noteq> CHR ''+''" "c \<noteq> CHR ''x''" "c \<noteq> CHR ''X''"
    unfolding d(2) by (rule digit_plain [OF d(1)])+
qed

lemma dec_no_hex_prefix: "take 2 (dec n) \<noteq> ''0x''" "take 2 (dec n) \<noteq> ''0X''"
proof -
  have "take 2 (dec n) \<noteq> ''0x'' \<and> take 2 (dec n) \<noteq> ''0X''"
  proof (cases "dec n")
    case Nil
    then show ?thesis by simp
  next
    case outer: (Cons c cs)
    show ?thesis
    proof (cases cs)
      case Nil
      with outer show ?thesis by simp
    next
      case (Cons e es)
      with outer have "e \<in> set (dec n)" by simp
      from dec_plain(4) [OF this] dec_plain(5) [OF this] outer Cons show ?thesis by simp
    qed
  qed
  then show "take 2 (dec n) \<noteq> ''0x''" "take 2 (dec n) \<noteq> ''0X''" by simp_all
qed

lemma takeWhile_dec: "takeWhile (is_digit 10) (dec n) = dec n"
  using dec_is_digit [of _ n] by (simp only: takeWhile_eq_all_conv) blast

lemma parseInt_dec: "parseInt (dec n) = Some (int n)"
proof -
  obtain c cs where s: "dec n = c # cs" using dec_not_Nil [of n] by (cases "dec n") auto
  then have c: "c \<in> set (dec n)" by simp
  have "dropWhile is_space (dec n) = dec n"
    using dec_plain(1) [OF c] s by simp
  moreover have "take 1 (dec n) \<noteq> ''-''" "take 1 (dec n) \<noteq> ''+''"
    using dec_plain(2) [OF c] dec_plain(3) [OF c] s by simp_all
  ultimately show ?thesis
    by (simp add: parseInt_def Let_def dec_no_hex_prefix takeWhile_dec dec_not_Nil digits_value_dec)
qed

lemma parseInt_minus_dec: "parseInt (CHR ''-'' # dec n) = Some (- int n)"
proof -
  have "dropWhile is_space (CHR ''-'' # dec n) = CHR ''-'' # dec n"
    by (simp add: is_space_def)
  then show ?thesis
    by (simp add: parseInt_def Let_def dec_no_hex_prefix takeWhile_dec dec_not_Nil digits_value_dec)
qed

lemma parseInt_Number_toString: "parseInt (Number_toString n) = Some n"
  by (simp add: Number_toString_def parseInt_dec parseInt_minus_dec)


lemma coerce_exact: "coerce x dflt = Some (case x of None \<Rightarrow> dflt | Some n \<Rightarrow> n)"
  by (simp add: coerce_def parseInt_Number_toString)

lemma totalGuests_exact:
  "totalGuests p = Some ((case adults p of None \<Rightarrow> 1 | Some n \<Rightarrow> n)
                         + (case children p of None \<Rightarrow> 0 | Some n \<Rightarrow> n))"
  by (simp add: totalGuests_def adults_int_def children_int_def coerce_exact number_add_def)

lemma searchParams_append_string:
  "searchParams (append_string name x u) =
     searchParams u @ (if given x then [(name, the x)] else [])"
  by (simp add: append_string_def append_def given_def split: option.splits)

lemma searchParams_append_number:
  "searchParams (append_number name x u) =
     searchParams u @ (if given_number x then [(name, Number_toString (the x))] else [])"
  by (simp add: append_number_def append_def given_number_def split: option.splits)

lemma searchParams_append: "searchParams (append name v u) = searchParams u @ [(name, v)]"
  by (simp add: append_def)

lemma pathname_append [simp]:
  "pathname (append name v u) = pathname u"
  "pathname (append_string name x u) = pathname u"
  "pathname (append_number name y u) = pathname u"
  by (simp_all add: append_def append_string_def append_number_def split: option.splits)

lemma searchUrl_params:
  "searchParams (searchUrl p) =
     (if given (placeId p) then [(''place_id'', the (placeId p))] else [])
     @ (if given (checkin p) then [(''checkin'', the (checkin p))] else [])
     @ (if given (checkout p) then [(''checkout'', the (checkout p))] else [])
     @ (if number_positive (totalGuests p)
        then [(''adults'', number_toString (adults_int p)),
              (''children'', number_toString (children_int p)),
              (''infants'', number_toString (infants_int p)),
              (''pets'', number_toString (pets_int p))]
        else [])
     @ (if given_number (minPrice p) then [(''price_min'', Number_toString (the (minPrice p)))] else [])
     @ (if given_number (maxPrice p) then [(''price_max'', Number_toString (the (maxPrice p)))] else [])
     @ (if given (cursor p) then [(''cursor'', the (cursor p))] else [])"
  by (simp add: searchUrl_def Let_def searchParams_append_string searchParams_append_number
                searchParams_append new_URL_def)

lemma listingUrl_params:
  "searchParams (listingUrl p) =
     (if given (checkin p) then [(''check_in'', the (checkin p))] else [])
     @ (if given (checkout p) then [(''check_out'', the (checkout p))] else [])
     @ (if number_positive (totalGuests p)
        then [(''adults'', number_toString (adults_int p)),
              (''children'', number_toString (children_int p)),
              (''infants'', number_toString (infants_int p)),
              (''adults'', number_toString (adults_int p)),
              (''children'', number_toString (children_int p)),
              (''infants'', number_toString (infants_int p)),
              (''pets'', number_toString (pets_int p))]
        else [])"
  by (simp add: listingUrl_def Let_def searchParams_append_string searchParams_append new_URL_def)

lemma searchUrl_pathname:
  "pathname (searchUrl p) =
     pathname (new_URL [''s'', encodeURIComponent (case location p of None \<Rightarrow> ''undefined'' | Some l \<Rightarrow> l), ''homes''])"
  by (simp add: searchUrl_def Let_def)

lemma searchUrl_names:
  "param_names (searchUrl p) =
     (if given (placeId p) then [''place_id''] else [])
     @ (if given (checkin p) then [''checkin''] else [])
     @ (if given (checkout p) then [''checkout''] else [])
     @ (if number_positive (totalGuests p) then guest_names else [])
     @ (if given_number (minPrice p) then [''price_min''] else [])
     @ (if given_number (maxPrice p) then [''price_max''] else [])
     @ (if given (cursor p) then [''cursor''] else [])"
  by (simp add: param_names_def searchUrl_params guest_names_def)

lemma listingUrl_names:
  "param_names (listingUrl p) =
     (if given (checkin p) then [''check_in''] else [])
     @ (if given (checkout p) then [''check_out''] else [])
     @ (if number_positive (totalGuests p)
        then [''adults'', ''children'', ''infants'', ''adults'', ''children'', ''infants'', ''pets'']
        else [])"
  by (simp add: param_names_def listingUrl_params)

lemma guest_names_apart:
  "set guest_names \<inter> set [''place_id'', ''checkin'', ''checkout'', ''price_min'', ''price_max'',
                            ''cursor'', ''check_in'', ''check_out''] = {}"
  by (simp add: guest_names_def)

lemma searchUrl_guests:
  "set guest_names \<inter> set (param_names (searchUrl p)) =
     (if number_positive (totalGuests p) then set guest_names else {})"
  using guest_names_apart by (auto simp: searchUrl_names)


text \<open>
  Claim C6. For a search with location \<^verbatim>\<open>Paris\<close> the path of the URL is \<^verbatim>\<open>/s/Paris/homes\<close>;
  when the four guest counts are given as zero, none of \<^verbatim>\<open>adults\<close>, \<^verbatim>\<open>children\<close>, \<^verbatim>\<open>infants\<close>,
  \<^verbatim>\<open>pets\<close> is a query parameter of the URL; when \<^verbatim>\<open>adults\<close> is 2 and the other counts are
  left out, all four are query parameters, with the values 2, 0, 0 and 0.
\<close>

theorem search_paris:
  assumes "location p = Some ''Paris''"
  shows "pathname (searchUrl p) = ''/s/Paris/homes''
       \<and> (adults p = Some 0 \<and> children p = Some 0 \<and> infants p = Some 0 \<and> pets p = Some 0 \<longrightarrow>
            set guest_names \<inter> set (param_names (searchUrl p)) = {})
       \<and> (adults p = Some 2 \<and> children p = None \<and> infants p = None \<and> pets p = None \<longrightarrow>
            set guest_names \<subseteq> set (param_names (searchUrl p))
            \<and> set [(''adults'', ''2''), (''children'', ''0''), (''infants'', ''0''), (''pets'', ''0'')]
                \<subseteq> set (searchParams (searchUrl p)))"
proof -
  have enc: "encodeURIComponent ''Paris'' = ''Paris''"
    by (simp add: encodeURIComponent_def unreserved_def is_alnum_def)
  have path: "pathname (searchUrl p) = ''/s/Paris/homes''"
    using assms by (simp add: searchUrl_pathname enc new_URL_def)
  have none: "set guest_names \<inter> set (param_names (searchUrl p)) = {}"
    if "adults p = Some 0" "children p = Some 0"
    using that by (simp add: searchUrl_guests totalGuests_exact number_positive_def)
  have d: "Number_toString 2 = ''2''" "Number_toString 0 = ''0''" by code_simp+
  have pos: "number_positive (totalGuests p)" if "adults p = Some 2" "children p = None"
    using that by (simp add: totalGuests_exact number_positive_def)
  have names: "set guest_names \<subseteq> set (param_names (searchUrl p))"
    if "adults p = Some 2" "children p = None"
    using searchUrl_guests [of p] pos [OF that] by auto
  have pairs: "set [(''adults'', ''2''), (''children'', ''0''), (''infants'', ''0''), (''pets'', ''0'')]
                 \<subseteq> set (searchParams (searchUrl p))"
    if "adults p = Some 2" "children p = None" "infants p = None" "pets p = None"
    using that d pos [OF that(1,2)]
    by (simp add: searchUrl_params adults_int_def children_int_def infants_int_def pets_int_def
                  coerce_exact number_toString_def)
  from path none names pairs show ?thesis by blast
qed

theorem search_paris_witness:
  "location (paris\<lparr>adults := Some 0, children := Some 0, infants := Some 0, pets := Some 0\<rparr>) = Some ''Paris''
   \<and> URL_toString (searchUrl (paris\<lparr>adults := Some 0, children := Some 0, infants := Some 0, pets := Some 0\<rparr>))
       = ''https://www.airbnb.ca/s/Paris/homes''
   \<and> location (paris\<lparr>adults := Some 2\<rparr>) = Some ''Paris''
   \<and> URL_toString (searchUrl (paris\<lparr>adults := Some 2\<rparr>))
       = ''https://www.airbnb.ca/s/Paris/homes?adults=2&children=0&infants=0&pets=0''"
proof -
  have a: "location (paris\<lparr>adults := Some 0, children := Some 0, infants := Some 0, pets := Some 0\<rparr>) = Some ''Paris''"
    and b: "location (paris\<lparr>adults := Some 2\<rparr>) = Some ''Paris''"
    by (simp_all add: paris_def)
  have u0: "URL_toString (searchUrl (paris\<lparr>adults := Some 0, children := Some 0, infants := Some 0, pets := Some 0\<rparr>))
       = ''https://www.airbnb.ca/s/Paris/homes''"
    by code_simp
  have u2: "URL_toString (searchUrl (paris\<lparr>adults := Some 2\<rparr>))
       = ''https://www.airbnb.ca/s/Paris/homes?adults=2&children=0&infants=0&pets=0''"
    by code_simp
  from search_paris [OF a] search_paris [OF b] a b u0 u2 show ?thesis by simp
qed


text \<open>
  Claim C9. In the URL of a listing, for an id made of unreserved characters (which
  brings no query of its own), whenever the coerced adults plus the coerced children is
  positive the query holds \<^verbatim>\<open>adults\<close>, \<^verbatim>\<open>children\<close> and \<^verbatim>\<open>infants\<close> twice each and \<^verbatim>\<open>pets\<close>
  once: after the dates come adults, children, infants, adults, children, infants, pets.
\<close>

theorem listing_guests_duplicated:
  assumes "number_positive (totalGuests p)" and "list_all unreserved (listing_id p)"
  shows "count_list (param_names (listingUrl p)) ''adults'' = 2
       \<and> count_list (param_names (listingUrl p)) ''children'' = 2
       \<and> count_list (param_names (listingUrl p)) ''infants'' = 2
       \<and> count_list (param_names (listingUrl p)) ''pets'' = 1
       \<and> (\<exists>dates. set (map fst dates) \<subseteq> {''check_in'', ''check_out''} \<and>
             searchParams (listingUrl p) =
               dates @ [(''adults'', number_toString (adults_int p)),
                        (''children'', number_toString (children_int p)),
                        (''infants'', number_toString (infants_int p)),
                        (''adults'', number_toString (adults_int p)),
                        (''children'', number_toString (children_int p)),
                        (''infants'', number_toString (infants_int p)),
                        (''pets'', number_toString (pets_int p))])"
proof -
  have counts: "count_list (param_names (listingUrl p)) ''adults'' = 2"
               "count_list (param_names (listingUrl p)) ''children'' = 2"
               "count_list (param_names (listingUrl p)) ''infants'' = 2"
               "count_list (param_names (listingUrl p)) ''pets'' = 1"
    using assms(1) by (simp_all add: listingUrl_names)
  let ?dates = "(if given (checkin p) then [(''check_in'', the (checkin p))] else [])
                @ (if given (checkout p) then [(''check_out'', the (checkout p))] else [])"
  have "set (map fst ?dates) \<subseteq> {''check_in'', ''check_out''}" by auto
  moreover have "searchParams (listingUrl p) =
               ?dates @ [(''adults'', number_toString (adults_int p)),
                        (''children'', number_toString (children_int p)),
                        (''infants'', number_toString (infants_int p)),
                        (''adults'', number_toString (adults_int p)),
                        (''children'', number_toString (children_int p)),
                        (''infants'', number_toString (infants_int p)),
                        (''pets'', number_toString (pets_int p))]"
    using assms(1) by (simp add: listingUrl_params)
  ultimately show ?thesis using counts by blast
qed

theorem listing_guests_duplicated_witness:
  "number_positive (totalGuests (room\<lparr>adults := Some 2, children := Some 1\<rparr>))
   \<and> list_all unreserved (listing_id (room\<lparr>adults := Some 2, children := Some 1\<rparr>))
   \<and> count_list (param_names (listingUrl (room\<lparr>adults := Some 2, children := Some 1\<rparr>))) ''pets'' = 1
   \<and> URL_toString (listingUrl (room\<lparr>adults := Some 2, children := Some 1\<rparr>))
       = ''https://www.airbnb.ca/rooms/12345?adults=2&children=1&infants=0&adults=2&children=1&infants=0&pets=0''"
proof -
  have a: "number_positive (totalGuests (room\<lparr>adults := Some 2, children := Some 1\<rparr>))"
    by (simp add: totalGuests_exact number_positive_def)
  have b: "list_all unreserved (listing_id (room\<lparr>adults := Some 2, children := Some 1\<rparr>))"
    by (simp add: room_def unreserved_def is_alnum_def)
  have u: "URL_toString (listingUrl (room\<lparr>adults := Some 2, children := Some 1\<rparr>))
       = ''https://www.airbnb.ca/rooms/12345?adults=2&children=1&infants=0&adults=2&children=1&infants=0&pets=0''"
    by code_simp
  from listing_guests_duplicated [OF a b] a b u show ?thesis by simp
qed



lemma bind_Inl [simp]: "bind (Inl e) f = Inl e"
  by (simp add: bind_def)

lemma bind_Inr [simp]: "bind (Inr x) f = f x"
  by (simp add: bind_def)





section \<open>The sections of a listing\<close>




section \<open>The results of the handlers\<close>

lemma search_runs:
  assumes "ignoreRobotsText p = Some True
           \<or> isPathAllowed E w (pathname (searchUrl p) @ URL_search (searchUrl p))"
      and "fetchWithBrowserHeaders E BASE_URL [] 0 w = (Inr home, w1)"
      and "fetchWithBrowserHeaders E (URL_toString (searchUrl p)) [] 0 w1 = (Inr response, w2)"
      and "text_body response = Inr html"
  shows "handleAirbnbSearch E p w =
           (\<lparr>text_json = Obj (spread [(''searchUrl'', Str (URL_toString (searchUrl p)))]
                                (case bind (search_results E html) (staysSearchResults E) of
                                   Inl e \<Rightarrow> Obj [] | Inr v \<Rightarrow> v)),
             isError = False\<rparr>, w2)"
  using assms by (auto simp add: handleAirbnbSearch_def Let_def)

lemma listing_runs:
  assumes "ignoreRobotsText p = Some True
           \<or> isPathAllowed E w (pathname (listingUrl p) @ URL_search (listingUrl p))"
      and "fetchWithBrowserHeaders E BASE_URL [] 0 w = (Inr home, w1)"
      and "fetchWithBrowserHeaders E (URL_toString (listingUrl p))
             [(''Referer'', BASE_URL @ ''/s/'' @ encodeURIComponent ''homes'')] 0 w1 = (Inr response, w2)"
      and "text_body response = Inr html"
  shows "handleAirbnbListingDetails E p w =
           (\<lparr>text_json = Obj [(''listingUrl'', Str (URL_toString (listingUrl p))),
                              (''details'', (case bind (page_sections E html) (details E) of
                                               Inl e \<Rightarrow> Obj [] | Inr v \<Rightarrow> v))],
             isError = False\<rparr>, w2)"
  using assms by (auto simp add: handleAirbnbListingDetails_def Let_def)

lemma clientData_absent: "deferred_state E html = None \<Longrightarrow> isl (clientData E html)"
  by (simp add: clientData_def JSON_parse_def)

lemma clientData_unparsed:
  "deferred_state E html = Some t \<Longrightarrow> json_parse E t = None \<Longrightarrow> isl (clientData E html)"
  by (simp add: clientData_def JSON_parse_def)

lemma isl_bind: "isl m \<Longrightarrow> isl (bind m f)"
  by (cases m) simp_all

lemma staysSearchResults_Undefined: "isl (staysSearchResults E Undefined)"
  by (simp add: staysSearchResults_def in_place_def)

lemma details_Undefined: "isl (details E Undefined)"
  by (simp add: details_def)

lemma search_extraction_fails:
  assumes "deferred_state E html = None
           \<or> deferred_state E html = Some t \<and> json_parse E t = None
           \<or> search_results E html = Inl e
           \<or> search_results E html = Inr Undefined"
  shows "isl (bind (search_results E html) (staysSearchResults E))"
  using assms clientData_absent [of E html] clientData_unparsed [of E html t]
        staysSearchResults_Undefined [of E]
  by (auto simp: search_results_def isl_bind)

lemma listing_extraction_fails:
  assumes "deferred_state E html = None
           \<or> deferred_state E html = Some t \<and> json_parse E t = None
           \<or> page_sections E html = Inl e
           \<or> page_sections E html = Inr Undefined"
  shows "isl (bind (page_sections E html) (details E))"
  using assms clientData_absent [of E html] clientData_unparsed [of E html t]
        details_Undefined [of E]
  by (auto simp: page_sections_def isl_bind)

text \<open>
  Claim C1, as the code has it. In both handlers, when the path is allowed (or the check
  is skipped) and both requests are answered, a failure of the extraction is caught by
  the inner \<^verbatim>\<open>try\<close> and is not reported: the script element is absent, or its text does not
  parse, or the subtree \<^verbatim>\<open>staysSearch.results\<close> (for the details,
  \<^verbatim>\<open>stayProductDetailPage.sections.sections\<close>) cannot be reached or is \<^verbatim>\<open>undefined\<close>, or any
  later step of the extraction throws. The result has \<^verbatim>\<open>isError\<close> false and carries the
  URL and no message: \<^verbatim>\<open>{searchUrl}\<close> for a search, \<^verbatim>\<open>{listingUrl, details: {}}\<close> for the details.
\<close>

theorem extraction_failure_swallowed:
  "((ignoreRobotsText ps = Some True
       \<or> isPathAllowed E w (pathname (searchUrl ps) @ URL_search (searchUrl ps)))
     \<and> fetchWithBrowserHeaders E BASE_URL [] 0 w = (Inr home, w1)
     \<and> fetchWithBrowserHeaders E (URL_toString (searchUrl ps)) [] 0 w1 = (Inr response, w2)
     \<and> text_body response = Inr html
     \<and> (deferred_state E html = None
         \<or> deferred_state E html = Some t \<and> json_parse E t = None
         \<or> search_results E html = Inl e
         \<or> search_results E html = Inr Undefined
         \<or> isl (bind (search_results E html) (staysSearchResults E)))
     \<longrightarrow> handleAirbnbSearch E ps w =
           (\<lparr>text_json = Obj [(''searchUrl'', Str (URL_toString (searchUrl ps)))], isError = False\<rparr>, w2))
   \<and> ((ignoreRobotsText pl = Some True
         \<or> isPathAllowed E w (pathname (listingUrl pl) @ URL_search (listingUrl pl)))
       \<and> fetchWithBrowserHeaders E BASE_URL [] 0 w = (Inr home, w1)
       \<and> fetchWithBrowserHeaders E (URL_toString (listingUrl pl))
            [(''Referer'', BASE_URL @ ''/s/'' @ encodeURIComponent ''homes'')] 0 w1 = (Inr response', w2')
       \<and> text_body response' = Inr html'
       \<and> (deferred_state E html' = None
           \<or> deferred_state E html' = Some t' \<and> json_parse E t' = None
           \<or> page_sections E html' = Inl e'
           \<or> page_sections E html' = Inr Undefined
           \<or> isl (bind (page_sections E html') (details E)))
       \<longrightarrow> handleAirbnbListingDetails E pl w =
             (\<lparr>text_json = Obj [(''listingUrl'', Str (URL_toString (listingUrl pl))), (''details'', Obj [])],
               isError = False\<rparr>, w2'))"
proof (intro conjI impI)
  assume a: "(ignoreRobotsText ps = Some True
       \<or> isPathAllowed E w (pathname (searchUrl ps) @ URL_search (searchUrl ps)))
     \<and> fetchWithBrowserHeaders E BASE_URL [] 0 w = (Inr home, w1)
     \<and> fetchWithBrowserHeaders E (URL_toString (searchUrl ps)) [] 0 w1 = (Inr response, w2)
     \<and> text_body response = Inr html
     \<and> (deferred_state E html = None
         \<or> deferred_state E html = Some t \<and> json_parse E t = None
         \<or> search_results E html = Inl e
         \<or> search_results E html = Inr Undefined
         \<or> isl (bind (search_results E html) (staysSearchResults E)))"
  then have "isl (bind (search_results E html) (staysSearchResults E))"
    using search_extraction_fails [of E html t e] by blast
  then obtain x where "bind (search_results E html) (staysSearchResults E) = Inl x"
    by (cases "bind (search_results E html) (staysSearchResults E)") auto
  with a search_runs [of ps E w home w1 response w2 html]
  show "handleAirbnbSearch E ps w =
           (\<lparr>text_json = Obj [(''searchUrl'', Str (URL_toString (searchUrl ps)))], isError = False\<rparr>, w2)"
    by (simp add: spread_def)
next
  assume a: "(ignoreRobotsText pl = Some True
         \<or> isPathAllowed E w (pathname (listingUrl pl) @ URL_search (listingUrl pl)))
       \<and> fetchWithBrowserHeaders E BASE_URL [] 0 w = (Inr home, w1)
       \<and> fetchWithBrowserHeaders E (URL_toString (listingUrl pl))
            [(''Referer'', BASE_URL @ ''/s/'' @ encodeURIComponent ''homes'')] 0 w1 = (Inr response', w2')
       \<and> text_body response' = Inr html'
       \<and> (deferred_state E html' = None
           \<or> deferred_state E html' = Some t' \<and> json_parse E t' = None
           \<or> page_sections E html' = Inl e'
           \<or> page_sections E html' = Inr Undefined
           \<or> isl (bind (page_sections E html') (details E)))"
  then have "isl (bind (page_sections E html') (details E))"
    using listing_extraction_fails [of E html' t' e'] by blast
  then obtain x where "bind (page_sections E html') (details E) = Inl x"
    by (cases "bind (page_sections E html') (details E)") auto
  with a listing_runs [of pl E w home w1 response' w2' html']
  show "handleAirbnbListingDetails E pl w =
             (\<lparr>text_json = Obj [(''listingUrl'', Str (URL_toString (listingUrl pl))), (''details'', Obj [])],
               isError = False\<rparr>, w2')"
    by simp
qed


lemma plain_site_home:
  "fetchWithBrowserHeaders (sample_env plain_site) BASE_URL [] 0 fresh =
     (Inr (page [] ''<html></html>''),
      snd (fetchWithBrowserHeaders (sample_env plain_site) BASE_URL [] 0 fresh))"
proof -
  have "fst (fetchWithBrowserHeaders (sample_env plain_site) BASE_URL [] 0 fresh)
          = Inr (page [] ''<html></html>'')"
    by code_simp
  then show ?thesis by (simp add: prod_eq_iff)
qed

lemma plain_site_search:
  "fetchWithBrowserHeaders (sample_env plain_site) (URL_toString (searchUrl paris)) [] 0
     (snd (fetchWithBrowserHeaders (sample_env plain_site) BASE_URL [] 0 fresh)) =
     (Inr (page [] ''<html></html>''),
      snd (fetchWithBrowserHeaders (sample_env plain_site) (URL_toString (searchUrl paris)) [] 0
             (snd (fetchWithBrowserHeaders (sample_env plain_site) BASE_URL [] 0 fresh))))"
proof -
  have "fst (fetchWithBrowserHeaders (sample_env plain_site) (URL_toString (searchUrl paris)) [] 0
               (snd (fetchWithBrowserHeaders (sample_env plain_site) BASE_URL [] 0 fresh)))
          = Inr (page [] ''<html></html>'')"
    by code_simp
  then show ?thesis by (simp add: prod_eq_iff)
qed

lemma plain_site_room:
  "fetchWithBrowserHeaders (sample_env plain_site) (URL_toString (listingUrl room))
     [(''Referer'', BASE_URL @ ''/s/'' @ encodeURIComponent ''homes'')] 0
     (snd (fetchWithBrowserHeaders (sample_env plain_site) BASE_URL [] 0 fresh)) =
     (Inr (page [] ''<html></html>''),
      snd (fetchWithBrowserHeaders (sample_env plain_site) (URL_toString (listingUrl room))
             [(''Referer'', BASE_URL @ ''/s/'' @ encodeURIComponent ''homes'')] 0
             (snd (fetchWithBrowserHeaders (sample_env plain_site) BASE_URL [] 0 fresh))))"
proof -
  have "fst (fetchWithBrowserHeaders (sample_env plain_site) (URL_toString (listingUrl room))
               [(''Referer'', BASE_URL @ ''/s/'' @ encodeURIComponent ''homes'')] 0
               (snd (fetchWithBrowserHeaders (sample_env plain_site) BASE_URL [] 0 fresh)))
          = Inr (page [] ''<html></html>'')"
    by code_simp
  then show ?thesis by (simp add: prod_eq_iff)
qed

theorem extraction_failure_swallowed_witness:
  "isPathAllowed (sample_env plain_site) fresh
      (pathname (searchUrl paris) @ URL_search (searchUrl paris))
   \<and> isPathAllowed (sample_env plain_site) fresh
      (pathname (listingUrl room) @ URL_search (listingUrl room))
   \<and> text_body (page [] ''<html></html>'') = Inr ''<html></html>''
   \<and> deferred_state (sample_env plain_site) ''<html></html>'' = None
   \<and> fst (handleAirbnbSearch (sample_env plain_site) paris fresh) =
       \<lparr>text_json = Obj [(''searchUrl'', Str (URL_toString (searchUrl paris)))], isError = False\<rparr>
   \<and> fst (handleAirbnbListingDetails (sample_env plain_site) room fresh) =
       \<lparr>text_json = Obj [(''listingUrl'', Str (URL_toString (listingUrl room))), (''details'', Obj [])],
         isError = False\<rparr>"
proof -
  have a: "isPathAllowed (sample_env plain_site) fresh path" for path
    by (simp add: isPathAllowed_def fresh_def)
  have b: "text_body (page [] ''<html></html>'') = Inr ''<html></html>''"
    by (simp add: page_def)
  have c: "deferred_state (sample_env plain_site) ''<html></html>'' = None"
    by (simp add: sample_env_def)
  from extraction_failure_swallowed
         [where ps = paris and pl = room and E = "sample_env plain_site" and w = fresh
            and home = "page [] ''<html></html>''" and response = "page [] ''<html></html>''"
            and html = "''<html></html>''"
            and response' = "page [] ''<html></html>''" and html' = "''<html></html>''"
            and ?w1.0 = "snd (fetchWithBrowserHeaders (sample_env plain_site) BASE_URL [] 0 fresh)"
            and ?w2.0 = "snd (fetchWithBrowserHeaders (sample_env plain_site)
                                (URL_toString (searchUrl paris)) [] 0
                                (snd (fetchWithBrowserHeaders (sample_env plain_site) BASE_URL [] 0 fresh)))"
            and w2' = "snd (fetchWithBrowserHeaders (sample_env plain_site)
                              (URL_toString (listingUrl room))
                              [(''Referer'', BASE_URL @ ''/s/'' @ encodeURIComponent ''homes'')] 0
                              (snd (fetchWithBrowserHeaders (sample_env plain_site) BASE_URL [] 0 fresh)))"]
       a b c plain_site_home plain_site_search plain_site_room
  show ?thesis by simp
qed

text \<open>
  Claim C1 as stated fails: on a page without the script element both handlers return a
  result whose \<^verbatim>\<open>isError\<close> is false and which has no \<^verbatim>\<open>error\<close> entry.
\<close>

theorem extraction_failure_not_an_error:
  "deferred_state (sample_env plain_site) ''<html></html>'' = None
   \<and> fst (handleAirbnbSearch (sample_env plain_site) paris fresh) =
       \<lparr>text_json = Obj [(''searchUrl'',
                           Str ''https://www.airbnb.ca/s/Paris/homes?adults=1&children=0&infants=0&pets=0'')],
         isError = False\<rparr>
   \<and> fst (handleAirbnbListingDetails (sample_env plain_site) room fresh) =
       \<lparr>text_json = Obj [(''listingUrl'',
                           Str ''https://www.airbnb.ca/rooms/12345?adults=1&children=0&infants=0&adults=1&children=0&infants=0&pets=0''),
                          (''details'', Obj [])],
         isError = False\<rparr>"
  by code_simp

text \<open>
  Claim C2, as the code has it. When \<^verbatim>\<open>ignoreRobotsText\<close> is not true and the path of the
  URL is not allowed, each handler returns at once, with the state unchanged (no request
  is sent, no cookie is stored), a result with \<^verbatim>\<open>isError\<close> true whose object is
  \<^verbatim>\<open>{error, url}\<close>: the message about \<^verbatim>\<open>robots.txt\<close> and the URL, under the key \<^verbatim>\<open>url\<close> in both
  handlers.
\<close>

theorem robots_short_circuit:
  "(ignoreRobotsText ps \<noteq> Some True
      \<and> \<not> isPathAllowed E w (pathname (searchUrl ps) @ URL_search (searchUrl ps))
     \<longrightarrow> handleAirbnbSearch E ps w =
           (\<lparr>text_json = Obj [(''error'', Str robotsErrorMessage),
                              (''url'', Str (URL_toString (searchUrl ps)))],
             isError = True\<rparr>, w))
   \<and> (ignoreRobotsText pl \<noteq> Some True
        \<and> \<not> isPathAllowed E w (pathname (listingUrl pl) @ URL_search (listingUrl pl))
       \<longrightarrow> handleAirbnbListingDetails E pl w =
             (\<lparr>text_json = Obj [(''error'', Str robotsErrorMessage),
                                (''url'', Str (URL_toString (listingUrl pl)))],
               isError = True\<rparr>, w))"
  by (simp add: handleAirbnbSearch_def handleAirbnbListingDetails_def Let_def)

theorem robots_short_circuit_witness:
  "ignoreRobotsText paris \<noteq> Some True
   \<and> \<not> isPathAllowed (sample_env plain_site) denied
          (pathname (searchUrl paris) @ URL_search (searchUrl paris))
   \<and> ignoreRobotsText room \<noteq> Some True
   \<and> \<not> isPathAllowed (sample_env plain_site) denied
          (pathname (listingUrl room) @ URL_search (listingUrl room))
   \<and> snd (handleAirbnbSearch (sample_env plain_site) paris denied) = denied
   \<and> isError (fst (handleAirbnbSearch (sample_env plain_site) paris denied))
   \<and> snd (handleAirbnbListingDetails (sample_env plain_site) room denied) = denied
   \<and> isError (fst (handleAirbnbListingDetails (sample_env plain_site) room denied))"
proof -
  have a: "ignoreRobotsText paris \<noteq> Some True" "ignoreRobotsText room \<noteq> Some True"
    by (simp_all add: paris_def room_def)
  have b: "\<not> isPathAllowed (sample_env plain_site) denied path" for path
    by (simp add: isPathAllowed_def sample_env_def denied_def)
  from robots_short_circuit [of paris "sample_env plain_site" denied room] a b
  show ?thesis by simp
qed

text \<open>
  Claim C2 as stated fails: the object of the result has the key \<^verbatim>\<open>url\<close>, and neither
  \<^verbatim>\<open>searchUrl\<close> nor \<^verbatim>\<open>listingUrl\<close>.
\<close>

theorem robots_result_key_is_url:
  "text_json (fst (handleAirbnbSearch (sample_env plain_site) paris denied)) =
     Obj [(''error'', Str robotsErrorMessage),
          (''url'', Str ''https://www.airbnb.ca/s/Paris/homes?adults=1&children=0&infants=0&pets=0'')]
   \<and> get_prop (text_json (fst (handleAirbnbSearch (sample_env plain_site) paris denied))) ''searchUrl''
       = Inr Undefined
   \<and> text_json (fst (handleAirbnbListingDetails (sample_env plain_site) room denied)) =
     Obj [(''error'', Str robotsErrorMessage),
          (''url'', Str ''https://www.airbnb.ca/rooms/12345?adults=1&children=0&infants=0&adults=1&children=0&infants=0&pets=0'')]
   \<and> get_prop (text_json (fst (handleAirbnbListingDetails (sample_env plain_site) room denied))) ''listingUrl''
       = Inr Undefined"
  by code_simp







end
